theory Spec2Isabelle
  imports Complex_Main "HOL-Library.Multiset"
begin

section \<open>Data model\<close>

text \<open>
  The game is a Phaser scene (\<^verbatim>\<open>GameScene.js\<close>) that owns the economy counters and a
  \<^verbatim>\<open>GridManager\<close> (\<^verbatim>\<open>GridManager.js\<close>) that owns a square array of \<^verbatim>\<open>Tile\<close> objects.
  Building kinds are the string keys of \<^verbatim>\<open>BuildingRegistry\<close>.

  Numbers. JavaScript numbers are doubles. Money, population, costs, sizes and grid
  coordinates only ever hold integers here and are modelled by \<open>int\<close>. Happiness holds
  decimal fractions that are added up and multiplied, and the income depends on how the
  results are rounded: it is modelled by the rational value of the double, and every
  operation on it rounds as the double operation does (\<open>roundToDouble\<close> below). The sort
  depths are integers plus at most one tenth and are only compared with a tolerance of one
  hundredth; they are modelled by exact rationals.
  Rendering attributes of a tile (screen position, scale, visibility) and the floating
  texts are not part of the model.
\<close>

type_synonym kind = string

subsection \<open>Double arithmetic\<close>

text \<open>
  A finite double is a rational \<open>m * 2 ^ e\<close> with an integer \<open>m\<close> of at most 53 bits. A
  decimal literal denotes the double nearest to it, and \<^verbatim>\<open>+\<close>, \<^verbatim>\<open>-\<close>, \<^verbatim>\<open>*\<close> and \<^verbatim>\<open>/\<close> give the
  double nearest to the exact result, a tie going to the even \<open>m\<close>. \<open>roundToDouble\<close> is that
  rounding. The exponent is not bounded here: the values of the game stay far from the
  overflow threshold and from the subnormal range.
\<close>

text \<open>The integer nearest to \<open>q\<close>, the even one of the two when \<open>q\<close> is half way.\<close>

definition roundHalfEven :: "rat \<Rightarrow> int" where
  "roundHalfEven q =
     (let f = \<lfloor>q\<rfloor>; d = q - of_int f
      in if d < 1 / 2 then f else if 1 / 2 < d then f + 1 else if even f then f else f + 1)"

text \<open>The number of binary digits of a positive integer.\<close>

function bitLength :: "int \<Rightarrow> int" where
  "bitLength n = (if n \<le> 0 then 0 else 1 + bitLength (n div 2))"
  by pat_completeness auto
termination
  by (relation "measure nat") auto

definition twoTo :: "int \<Rightarrow> rat" where
  "twoTo e = (if 0 \<le> e then 2 ^ nat e else 1 / 2 ^ nat (- e))"

text \<open>The exponent \<open>e\<close> of a positive rational \<open>x\<close>: \<open>2 ^ e \<le> x < 2 ^ (e + 1)\<close>.\<close>

definition exponentOf :: "rat \<Rightarrow> int" where
  "exponentOf x =
     (let e = bitLength (fst (quotient_of x)) - bitLength (snd (quotient_of x))
      in if twoTo e \<le> x then e else e - 1)"

definition roundToDouble :: "rat \<Rightarrow> rat" where
  "roundToDouble x =
     (if x = 0 then 0
      else let ulp = twoTo (exponentOf \<bar>x\<bar> - 52)
           in of_int (roundHalfEven (x / ulp)) * ulp)"

record effects =
  eff_population :: "int option"
  eff_happiness :: "rat option"

record requirements =
  req_population :: "int option"

record config =
  type_cfg :: kind
  cost :: int
  size_cfg :: int
  effects :: effects
  requirements :: "requirements option"

record tile =
  texture :: kind
  isFlipped :: bool
  masterTile :: "(int \<times> int) option"
  isMaster :: bool

record scene =
  money :: int
  population :: int
  happiness :: rat
  costs :: "kind \<rightharpoonup> int"
  grid :: "tile list list"
  previewFlipped :: bool

subsection \<open>BuildingRegistry.js\<close>

text \<open>
  The entries of the registry. The happiness effects are the literals \<^verbatim>\<open>-0.1\<close>, \<^verbatim>\<open>0.2\<close> and
  \<^verbatim>\<open>0.5\<close> of the source.
\<close>

definition no_effects :: effects where
  "no_effects = \<lparr>eff_population = None, eff_happiness = None\<rparr>"

definition grass_cfg :: config where
  "grass_cfg = \<lparr>type_cfg = ''grass'', cost = 0, size_cfg = 1, effects = no_effects,
     requirements = None\<rparr>"

definition house_cfg :: config where
  "house_cfg = \<lparr>type_cfg = ''house'', cost = 60, size_cfg = 1,
     effects = \<lparr>eff_population = Some 1, eff_happiness = None\<rparr>, requirements = None\<rparr>"

definition shop_cfg :: config where
  "shop_cfg = \<lparr>type_cfg = ''shop'', cost = 40, size_cfg = 1,
     effects = \<lparr>eff_population = None, eff_happiness = Some (- roundToDouble (1 / 10))\<rparr>,
     requirements = None\<rparr>"

definition park_cfg :: config where
  "park_cfg = \<lparr>type_cfg = ''park'', cost = 100, size_cfg = 1,
     effects = \<lparr>eff_population = None, eff_happiness = Some (roundToDouble (2 / 10))\<rparr>,
     requirements = None\<rparr>"

definition university_cfg :: config where
  "university_cfg = \<lparr>type_cfg = ''university'', cost = 1000, size_cfg = 2,
     effects = \<lparr>eff_population = Some (- 1), eff_happiness = Some (roundToDouble (5 / 10))\<rparr>,
     requirements = Some \<lparr>req_population = Some 1\<rparr>\<rparr>"

definition market_cfg :: config where
  "market_cfg = \<lparr>type_cfg = ''market'', cost = 10000, size_cfg = 2, effects = no_effects,
     requirements = None\<rparr>"

text \<open>The registry object, in the order of its keys.\<close>

definition BuildingRegistry :: "(kind \<times> config) list" where
  "BuildingRegistry =
     [(''grass'', grass_cfg), (''house'', house_cfg), (''shop'', shop_cfg),
      (''park'', park_cfg), (''university'', university_cfg), (''market'', market_cfg)]"

text \<open>\<^verbatim>\<open>BuildingRegistry[type] || BuildingRegistry.grass\<close>\<close>

definition getBuildingConfig :: "kind \<Rightarrow> config" where
  "getBuildingConfig type =
     (case map_of BuildingRegistry type of Some c \<Rightarrow> c | None \<Rightarrow> grass_cfg)"

definition isMultiTile :: "kind \<Rightarrow> bool" where
  "isMultiTile type = (size_cfg (getBuildingConfig type) > 1)"

subsection \<open>The grid\<close>

text \<open>
  \<open>gridSize\<close> stands for \<^verbatim>\<open>Config.gridSize\<close> (\<^verbatim>\<open>Config.js\<close> is not among the sources);
  every function that reads it takes it as its first argument.
  The grid is an array of \<open>gridSize\<close> rows of \<open>gridSize\<close> tiles.
\<close>

definition isValidCoord :: "int \<Rightarrow> int \<Rightarrow> int \<Rightarrow> bool" where
  "isValidCoord gridSize row col =
     (row \<ge> 0 \<and> row < gridSize \<and> col \<ge> 0 \<and> col < gridSize)"

definition wf_grid :: "int \<Rightarrow> tile list list \<Rightarrow> bool" where
  "wf_grid gridSize g =
     (int (length g) = gridSize \<and> list_all (\<lambda>row. int (length row) = gridSize) g)"

definition tileAt :: "tile list list \<Rightarrow> int \<Rightarrow> int \<Rightarrow> tile" where
  "tileAt g row col = g ! nat row ! nat col"

definition setTileAt :: "tile list list \<Rightarrow> int \<Rightarrow> int \<Rightarrow> tile \<Rightarrow> tile list list" where
  "setTileAt g row col t = g[nat row := (g ! nat row)[nat col := t]]"

text \<open>The cells visited by
  \<^verbatim>\<open>for (r = row; r < row + size; r++) for (c = col; c < col + size; c++)\<close>, in order.\<close>

definition footprint :: "int \<Rightarrow> int \<Rightarrow> int \<Rightarrow> (int \<times> int) list" where
  "footprint row col sz =
     concat (map (\<lambda>r. map (\<lambda>c. (r, c)) [col .. col + sz - 1]) [row .. row + sz - 1])"

text \<open>
  The entries of the saved grid, as \<^verbatim>\<open>getGridData\<close> writes them:
  \<^verbatim>\<open>{ type, flipped, masterTile, isMaster }\<close>.
\<close>

record tileData =
  type_td :: kind
  flipped :: bool
  masterTile_td :: "(int \<times> int) option"
  isMaster_td :: bool

text \<open>The default entry of \<^verbatim>\<open>initGrid\<close> when there is no saved data.\<close>

definition grassData :: tileData where
  "grassData = \<lparr>type_td = ''grass'', flipped = False, masterTile_td = None, isMaster_td = False\<rparr>"

text \<open>
  The body of the inner loop of \<^verbatim>\<open>initGrid\<close>: \<^verbatim>\<open>new Tile(..., tileData.type, r, c)\<close>
  starts unflipped, then \<^verbatim>\<open>masterTile\<close> and \<^verbatim>\<open>isMaster\<close> are copied and the tile is
  flipped when \<^verbatim>\<open>tileData.flipped\<close> is set.
\<close>

definition newTile :: "tileData \<Rightarrow> tile" where
  "newTile tileData =
     (let tile = \<lparr>texture = type_td tileData, isFlipped = False,
                   masterTile = masterTile_td tileData, isMaster = isMaster_td tileData\<rparr>
      in if flipped tileData then tile\<lparr>isFlipped := True\<rparr> else tile)"

text \<open>\<^verbatim>\<open>initGrid(savedData = null)\<close>. With saved data the caller has checked that the data
  cover the grid (see \<open>loadGame\<close> below).\<close>

definition initGrid :: "int \<Rightarrow> tileData list list option \<Rightarrow> tile list list" where
  "initGrid gridSize savedData =
     map (\<lambda>r. map (\<lambda>c. newTile (case savedData of
                                    Some d \<Rightarrow> d ! nat r ! nat c
                                  | None \<Rightarrow> grassData))
                 [0 .. gridSize - 1])
         [0 .. gridSize - 1]"

definition getGridData :: "int \<Rightarrow> tile list list \<Rightarrow> tileData list list" where
  "getGridData gridSize g =
     map (\<lambda>r. map (\<lambda>c. let tile = tileAt g r c
                        in \<lparr>type_td = texture tile, flipped = isFlipped tile,
                            masterTile_td = masterTile tile, isMaster_td = isMaster tile\<rparr>)
                 [0 .. gridSize - 1])
         [0 .. gridSize - 1]"

text \<open>The occupancy test of the source: \<^verbatim>\<open>tile.texture.key !== 'grass' || tile.masterTile\<close>.\<close>

definition occupied :: "tile \<Rightarrow> bool" where
  "occupied t = (texture t \<noteq> ''grass'' \<or> masterTile t \<noteq> None)"

subsection \<open>Scene counters (GameScene.js)\<close>

definition updateMoney :: "int \<Rightarrow> scene \<Rightarrow> scene" where
  "updateMoney amount s = s\<lparr>money := money s + amount\<rparr>"

definition updatePopulation :: "int \<Rightarrow> scene \<Rightarrow> scene" where
  "updatePopulation amount s = s\<lparr>population := population s + amount\<rparr>"

text \<open>\<^verbatim>\<open>this.happiness += amount\<close>, a sum of two doubles.\<close>

definition updateHappiness :: "rat \<Rightarrow> scene \<Rightarrow> scene" where
  "updateHappiness amount s = s\<lparr>happiness := roundToDouble (happiness s + amount)\<rparr>"

text \<open>
  \<^verbatim>\<open>Math.round(this.costs[type] * 1.1)\<close> on an integer cost \<open>c\<close>: the nearest integer
  to \<open>11 c / 10\<close>, halves rounded up.
\<close>

definition incrementCost :: "kind \<Rightarrow> scene \<Rightarrow> scene" where
  "incrementCost type s =
     (case costs s type of
        Some c \<Rightarrow> if c > 0 then s\<lparr>costs := (costs s)(type \<mapsto> (11 * c + 5) div 10)\<rparr> else s
      | None \<Rightarrow> s)"

text \<open>\<^verbatim>\<open>if (e.population) updatePopulation(sign * e.population)\<close>, and the same for happiness;
  \<open>sign\<close> is \<open>1\<close> to apply the effects and \<open>- 1\<close> to reverse them.\<close>

definition applyEffects :: "int \<Rightarrow> effects \<Rightarrow> scene \<Rightarrow> scene" where
  "applyEffects sign e s =
     (let s1 = (case eff_population e of
                  Some p \<Rightarrow> if p \<noteq> 0 then updatePopulation (sign * p) s else s
                | None \<Rightarrow> s)
      in (case eff_happiness e of
            Some h \<Rightarrow> if h \<noteq> 0 then updateHappiness (of_int sign * h) s1 else s1
          | None \<Rightarrow> s1))"

text \<open>The constructor of the scene: the counters and the costs copied from the registry.\<close>

definition initialCosts :: "kind \<rightharpoonup> int" where
  "initialCosts = map_of (map (\<lambda>(k, b). (type_cfg b, cost b)) BuildingRegistry)"

definition initialScene :: "int \<Rightarrow> scene" where
  "initialScene gridSize =
     \<lparr>money = 100, population = 0, happiness = 1, costs = initialCosts,
      grid = initGrid gridSize None, previewFlipped = False\<rparr>"

section \<open>Placement and removal (GridManager.js)\<close>

text \<open>
  \<^verbatim>\<open>placeTile\<close> returns nothing; it tells a refusal by a floating text and an early
  \<^verbatim>\<open>return\<close>. The model names every way out of the function:
  \<^item> \<open>InvalidCoord\<close>: the silent return when \<open>(row, col)\<close> is not a valid coordinate;
  \<^item> \<open>BlockedOutside\<close>: "SPACE BLOCKED", a cell of a multi-tile footprint is off the grid;
  \<^item> \<open>BlockedOccupied\<close>: "SPACE BLOCKED", a cell of a multi-tile footprint is occupied;
  \<^item> \<open>OccupiedCell\<close>: "OCCUPIED", a single-tile building on an occupied cell;
  \<^item> \<open>NoChange\<close>: the silent return when kind and orientation are already there;
  \<^item> \<open>NeedMoney c\<close>: "NEED $c";
  \<^item> \<open>NeedPopulation p\<close>: "NEED p";
  \<^item> \<open>Done\<close>: the function ran to its end;
  \<^item> \<open>TypeError\<close>: \<^verbatim>\<open>clearMultiTile\<close> read a cell off the grid, which throws in JavaScript.

  The function returns the scene it leaves with the exit. Its last two calls,
  \<^verbatim>\<open>updateDepths()\<close> and \<^verbatim>\<open>saveGame()\<close>, change neither the tiles nor the counters; they are
  modelled on their own below (\<open>updateDepths\<close>, \<open>saveGame\<close>).
\<close>

datatype exit =
    InvalidCoord | BlockedOutside | BlockedOccupied | OccupiedCell | NoChange
  | NeedMoney int | NeedPopulation int | Done | TypeError

text \<open>The availability check of a multi-tile footprint, cell by cell.\<close>

fun checkArea :: "int \<Rightarrow> tile list list \<Rightarrow> (int \<times> int) list \<Rightarrow> exit option" where
  "checkArea gridSize g [] = None"
| "checkArea gridSize g ((r, c) # rest) =
     (if \<not> isValidCoord gridSize r c then Some BlockedOutside
      else if occupied (tileAt g r c) then Some BlockedOccupied
      else checkArea gridSize g rest)"

text \<open>The loop that sets up a multi-tile building anchored at \<open>(row, col)\<close>.\<close>

fun markTiles ::
  "tile list list \<Rightarrow> int \<Rightarrow> int \<Rightarrow> kind \<Rightarrow> bool \<Rightarrow> (int \<times> int) list \<Rightarrow> tile list list" where
  "markTiles g row col type newFlipped [] = g"
| "markTiles g row col type newFlipped ((r, c) # rest) =
     (let t = (tileAt g r c)\<lparr>masterTile := Some (row, col)\<rparr>;
          t' = (if r = row \<and> c = col
                then t\<lparr>texture := type, isFlipped := newFlipped, isMaster := True\<rparr>
                else t\<lparr>isMaster := False\<rparr>)
      in markTiles (setTileAt g r c t') row col type newFlipped rest)"

text \<open>
  The loop of \<^verbatim>\<open>clearMultiTile\<close>. It does not test the coordinates: off the grid
  \<^verbatim>\<open>this.grid[r][c]\<close> is undefined and the first access to it throws, leaving the cells
  cleared so far. The flag is \<open>False\<close> when that happened.
\<close>

fun clearTiles :: "int \<Rightarrow> tile list list \<Rightarrow> (int \<times> int) list \<Rightarrow> bool \<times> tile list list" where
  "clearTiles gridSize g [] = (True, g)"
| "clearTiles gridSize g ((r, c) # rest) =
     (if isValidCoord gridSize r c
      then clearTiles gridSize
             (setTileAt g r c ((tileAt g r c)\<lparr>texture := ''grass'', masterTile := None,
                isMaster := False, isFlipped := False\<rparr>)) rest
      else (False, g))"

definition clearMultiTile :: "int \<Rightarrow> scene \<Rightarrow> int \<times> int \<Rightarrow> bool \<times> scene" where
  "clearMultiTile gridSize s masterPos =
     (if \<not> isValidCoord gridSize (fst masterPos) (snd masterPos) then (False, s)
      else
        let master = tileAt (grid s) (fst masterPos) (snd masterPos);
            type = texture master;
            config = getBuildingConfig type;
            sz = size_cfg config;
            s1 = applyEffects (- 1) (effects config) s;
            (ok, g) = clearTiles gridSize (grid s1) (footprint (fst masterPos) (snd masterPos) sz)
        in (ok, s1\<lparr>grid := g\<rparr>))"

text \<open>\<^verbatim>\<open>this.scene.costs[type] || config.cost\<close>\<close>

definition currentCost :: "scene \<Rightarrow> kind \<Rightarrow> int" where
  "currentCost s type =
     (case costs s type of
        Some c \<Rightarrow> if c \<noteq> 0 then c else cost (getBuildingConfig type)
      | None \<Rightarrow> cost (getBuildingConfig type))"

text \<open>The requirement test; \<open>Some p\<close> is the population asked for when it is not met.\<close>

definition unmetRequirement :: "config \<Rightarrow> scene \<Rightarrow> int option" where
  "unmetRequirement config s =
     (case requirements config of
        None \<Rightarrow> None
      | Some req \<Rightarrow>
          (case req_population req of
             None \<Rightarrow> None
           | Some p \<Rightarrow> if p \<noteq> 0 \<and> population s < p then Some p else None))"

text \<open>The last block of \<^verbatim>\<open>placeTile\<close>: a single-tile kind overwrites the cell.\<close>

definition finishTile :: "bool \<Rightarrow> int \<Rightarrow> int \<Rightarrow> kind \<Rightarrow> bool \<Rightarrow> scene \<Rightarrow> scene" where
  "finishTile multiTile row col type newFlipped s =
     (if \<not> multiTile
      then s\<lparr>grid := setTileAt (grid s) row col
             ((tileAt (grid s) row col)\<lparr>texture := type, isFlipped := newFlipped,
                masterTile := None, isMaster := False\<rparr>)\<rparr>
      else s)"

definition placeTile :: "int \<Rightarrow> scene \<Rightarrow> int \<Rightarrow> int \<Rightarrow> kind \<Rightarrow> exit \<times> scene" where
  "placeTile gridSize s row col type =
     (if \<not> isValidCoord gridSize row col then (InvalidCoord, s)
      else
        let config = getBuildingConfig type;
            multiTile = (size_cfg config > 1);
            sz = size_cfg config
        in
        case (if multiTile then checkArea gridSize (grid s) (footprint row col sz) else None) of
          Some e \<Rightarrow> (e, s)
        | None \<Rightarrow>
            let oldTile = tileAt (grid s) row col;
                oldType = texture oldTile;
                oldConfig = getBuildingConfig oldType
            in
            if \<not> multiTile \<and> type \<noteq> ''grass'' \<and> occupied oldTile \<and> oldType \<noteq> type
            then (OccupiedCell, s)
            else
              let oldFlipped = isFlipped oldTile;
                  newFlipped = previewFlipped s
              in
              if oldType = type \<and> oldFlipped = newFlipped \<and> \<not> multiTile then (NoChange, s)
              else
                let cost = currentCost s type in
                if oldType \<noteq> type then
                  if cost > 0 \<and> money s < cost then (NeedMoney cost, s)
                  else
                    case unmetRequirement config s of
                      Some p \<Rightarrow> (NeedPopulation p, s)
                    | None \<Rightarrow>
                        let s1 = (if cost > 0 then incrementCost type (updateMoney (- cost) s)
                                  else s);
                            (ok, s2) =
                              (case masterTile oldTile of
                                 Some masterPos \<Rightarrow> clearMultiTile gridSize s1 masterPos
                               | None \<Rightarrow>
                                   (True, if oldType \<noteq> ''grass''
                                          then applyEffects (- 1) (effects oldConfig) s1
                                          else s1))
                        in
                        if \<not> ok then (TypeError, s2)
                        else
                          let s3 = applyEffects 1 (effects config) s2;
                              s4 = (if multiTile
                                    then s3\<lparr>grid := markTiles (grid s3) row col type newFlipped
                                                     (footprint row col sz)\<rparr>
                                    else s3)
                          in (Done, finishTile multiTile row col type newFlipped s4)
                else (Done, finishTile multiTile row col type newFlipped s))"

text \<open>
  The part of \<^verbatim>\<open>placeTile\<close> that follows its last refusal, for a kind that differs from
  the old one (lines 119 to 168), as a function of its own; \<open>placeTile_split\<close> below
  shows that \<open>placeTile\<close> is its checks followed by \<open>commitTile\<close>.
\<close>

definition commitTile :: "int \<Rightarrow> scene \<Rightarrow> int \<Rightarrow> int \<Rightarrow> kind \<Rightarrow> exit \<times> scene" where
  "commitTile gridSize s row col type =
     (let config = getBuildingConfig type;
          multiTile = (size_cfg config > 1);
          oldTile = tileAt (grid s) row col;
          cost = currentCost s type;
          s1 = (if cost > 0 then incrementCost type (updateMoney (- cost) s) else s);
          (ok, s2) =
            (case masterTile oldTile of
               Some masterPos \<Rightarrow> clearMultiTile gridSize s1 masterPos
             | None \<Rightarrow>
                 (True, if texture oldTile \<noteq> ''grass''
                        then applyEffects (- 1) (effects (getBuildingConfig (texture oldTile))) s1
                        else s1))
      in if \<not> ok then (TypeError, s2)
         else
           let s3 = applyEffects 1 (effects config) s2;
               s4 = (if multiTile
                     then s3\<lparr>grid := markTiles (grid s3) row col type (previewFlipped s)
                                      (footprint row col (size_cfg config))\<rparr>
                     else s3)
           in (Done, finishTile multiTile row col type (previewFlipped s) s4))"

section \<open>Tick economy (GameScene.js)\<close>

definition countTiles :: "int \<Rightarrow> tile list list \<Rightarrow> kind \<Rightarrow> int" where
  "countTiles gridSize g type =
     sum_list (map (\<lambda>(r, c). if texture (tileAt g r c) = type then 1 else 0)
                   (footprint 0 0 gridSize))"

text \<open>
  \<^verbatim>\<open>penalty = Math.max(0, this.population - 10) * 0.1; return this.happiness - penalty\<close>:
  the product and the difference are double operations.
\<close>

definition getEffectiveHappiness :: "scene \<Rightarrow> rat" where
  "getEffectiveHappiness s =
     (let penalty = roundToDouble (of_int (max 0 (population s - 10)) * roundToDouble (1 / 10))
      in roundToDouble (happiness s - penalty))"

text \<open>\<^verbatim>\<open>Phaser.Math.Clamp(value, min, max)\<close> is \<^verbatim>\<open>Math.max(min, Math.min(max, value))\<close>.\<close>

definition Clamp :: "rat \<Rightarrow> rat \<Rightarrow> rat \<Rightarrow> rat" where
  "Clamp v lo hi = max lo (min hi v)"

text \<open>
  \<^verbatim>\<open>calculateIncome\<close>. The bounds \<^verbatim>\<open>-0.5\<close> and \<^verbatim>\<open>1.5\<close> are doubles as they stand; the quotient
  \<^verbatim>\<open>this.population / 5\<close> and the product \<^verbatim>\<open>baseIncomePerShop * effectiveHappiness\<close> are
  double operations, and \<^verbatim>\<open>Math.floor\<close> of a double is the floor of its value. The
  remaining sums and products are on integers.
\<close>

definition calculateIncome :: "int \<Rightarrow> scene \<Rightarrow> int" where
  "calculateIncome gridSize s =
     (let shops = countTiles gridSize (grid s) ''shop'';
          markets = countTiles gridSize (grid s) ''market''
      in if shops > 0 \<or> markets > 0 then
           let effectiveHappiness = Clamp (getEffectiveHappiness s) (- (1 / 2)) (3 / 2);
               baseIncomePerShop = 10 + \<lfloor>roundToDouble (of_int (population s) / 5)\<rfloor>;
               incomePerShop = \<lfloor>roundToDouble (of_int baseIncomePerShop * effectiveHappiness)\<rfloor>;
               total1 = (if shops > 0 then 0 + shops * incomePerShop else 0);
               total2 = (if markets > 0 then total1 + markets * (incomePerShop * 10)
                         else total1)
           in total2
         else 0)"

definition handleTick :: "int \<Rightarrow> scene \<Rightarrow> scene" where
  "handleTick gridSize s =
     (let income = calculateIncome gridSize s
      in if income > 0 then updateMoney income s else s)"

section \<open>Depth sorting (GridManager.js)\<close>

text \<open>
  What the comparator of \<^verbatim>\<open>updateDepths\<close> reads of an object of the container: a tile
  or the preview image. A missing \<^verbatim>\<open>gridRow\<close>, \<^verbatim>\<open>gridCol\<close> or texture is \<open>None\<close>.
\<close>

record entity =
  gridRow :: "int option"
  gridCol :: "int option"
  textureKey :: "kind option"
  isPreview :: bool

text \<open>\<^verbatim>\<open>a.gridRow ?? 999\<close>\<close>

definition rowOf :: "entity \<Rightarrow> int" where
  "rowOf a = (case gridRow a of Some r \<Rightarrow> r | None \<Rightarrow> 999)"

definition colOf :: "entity \<Rightarrow> int" where
  "colOf a = (case gridCol a of Some c \<Rightarrow> c | None \<Rightarrow> 999)"

text \<open>\<^verbatim>\<open>getBuildingConfig(a.texture?.key)\<close>: an undefined key is not in the registry.\<close>

definition configOf :: "entity \<Rightarrow> config" where
  "configOf a = (case textureKey a of Some k \<Rightarrow> getBuildingConfig k | None \<Rightarrow> grass_cfg)"

text \<open>The value of \<^verbatim>\<open>depthA\<close> when the comparator compares it.\<close>

definition depthOf :: "entity \<Rightarrow> rat" where
  "depthOf a =
     (let depth0 = of_int (rowOf a + colOf a);
          config = configOf a;
          depth1 = (if size_cfg config > 1 then depth0 + of_int (size_cfg config - 1)
                    else depth0);
          depth2 = (if textureKey a \<noteq> Some ''grass'' then depth1 + 1 / 10 else depth1)
      in depth2)"

definition depthCompare :: "entity \<Rightarrow> entity \<Rightarrow> rat" where
  "depthCompare a b =
     (let depthA = depthOf a; depthB = depthOf b in
      if \<bar>depthA - depthB\<bar> > 1 / 100 then depthA - depthB
      else if rowOf a \<noteq> rowOf b then of_int (rowOf a - rowOf b)
      else if isPreview a then 1
      else if isPreview b then - 1
      else 0)"

text \<open>
  \<^verbatim>\<open>Array.prototype.sort\<close> with a comparator is the engine's stable sort. It is modelled
  by a stable insertion sort: an element goes in front of the first element that the
  comparator does not put before it.
\<close>

fun insertBy :: "('a \<Rightarrow> 'a \<Rightarrow> rat) \<Rightarrow> 'a \<Rightarrow> 'a list \<Rightarrow> 'a list" where
  "insertBy cmp x [] = [x]"
| "insertBy cmp x (y # ys) = (if cmp x y \<le> 0 then x # y # ys else y # insertBy cmp x ys)"

definition sortBy :: "('a \<Rightarrow> 'a \<Rightarrow> rat) \<Rightarrow> 'a list \<Rightarrow> 'a list" where
  "sortBy cmp xs = foldr (insertBy cmp) xs []"

definition updateDepths :: "entity list \<Rightarrow> entity list" where
  "updateDepths list = sortBy depthCompare list"

section \<open>Persistence (GameScene.js)\<close>

text \<open>
  The saved document. \<^verbatim>\<open>JSON.stringify\<close> followed by \<^verbatim>\<open>JSON.parse\<close> gives back an
  object with the same fields and values for the finite numbers, strings, booleans,
  nulls and nested objects stored here, so the document is modelled by its fields.
\<close>

record gameState =
  money_gs :: int
  population_gs :: int
  happiness_gs :: rat
  costs_gs :: "kind \<rightharpoonup> int"
  grid_gs :: "tileData list list"

definition saveGame :: "int \<Rightarrow> scene \<Rightarrow> gameState" where
  "saveGame gridSize s =
     \<lparr>money_gs = money s, population_gs = population s, happiness_gs = happiness s,
      costs_gs = costs s, grid_gs = getGridData gridSize (grid s)\<rparr>"

text \<open>
  \<^verbatim>\<open>initGrid\<close> reads \<^verbatim>\<open>savedData[r][c].type\<close> for every cell of the grid; a missing row or
  entry throws. \<open>coversGrid\<close> holds when no read is out of range.
\<close>

definition coversGrid :: "int \<Rightarrow> tileData list list \<Rightarrow> bool" where
  "coversGrid gridSize d =
     (gridSize \<le> int (length d) \<and>
      list_all (\<lambda>row. gridSize \<le> int (length row)) (take (nat gridSize) d))"

text \<open>
  \<^verbatim>\<open>loadGame\<close>. The argument \<open>saved\<close> is the parsed content of the storage, \<open>None\<close>
  when nothing was saved. When the saved grid does not cover the grid the exception is
  caught and logged, with the scene partly assigned; that outcome is \<open>LoadFailed\<close>.
\<close>

datatype loadResult = Loaded scene | LoadFailed

definition loadGame :: "int \<Rightarrow> scene \<Rightarrow> gameState option \<Rightarrow> loadResult" where
  "loadGame gridSize s saved =
     (case saved of
        None \<Rightarrow> Loaded s
      | Some gameState \<Rightarrow>
          if coversGrid gridSize (grid_gs gameState)
          then Loaded (s\<lparr>money := money_gs gameState,
                         population := population_gs gameState,
                         happiness := happiness_gs gameState,
                         costs := costs s ++ costs_gs gameState,
                         grid := initGrid gridSize (Some (grid_gs gameState))\<rparr>)
          else LoadFailed)"

section \<open>Vocabulary of the specification and sample scenes\<close>

text \<open>
  The specification classifies a refused placement by a reason. \<open>reasonOf\<close> maps each
  way out of \<^verbatim>\<open>placeTile\<close> to that reason; the exits that are not refusals have none.
\<close>

datatype reason = OutOfBounds | Occupied | InsufficientFunds | PrerequisiteNotMet

fun reasonOf :: "exit \<Rightarrow> reason option" where
  "reasonOf InvalidCoord = Some OutOfBounds"
| "reasonOf BlockedOutside = Some OutOfBounds"
| "reasonOf BlockedOccupied = Some Occupied"
| "reasonOf OccupiedCell = Some Occupied"
| "reasonOf (NeedMoney c) = Some InsufficientFunds"
| "reasonOf (NeedPopulation p) = Some PrerequisiteNotMet"
| "reasonOf NoChange = None"
| "reasonOf Done = None"
| "reasonOf TypeError = None"


text \<open>
  The income of a tick as the specification words it, from the two building counts, the
  population and the happiness alone: the effective happiness is the happiness minus 0.1
  per unit of population above 10, clamped to \<open>[-0.5, 1.5]\<close>; a shop earns the floor of
  \<open>10 + \<lfloor>population / 5\<rfloor>\<close> times that, a market ten times as much. The numbers are the
  program's numbers: the product by 0.1, the difference, the quotient by 5 and the product
  by the effective happiness are double operations.
\<close>

definition income_spec :: "int \<Rightarrow> int \<Rightarrow> int \<Rightarrow> rat \<Rightarrow> int" where
  "income_spec shops markets pop h =
     (let above = (if pop > 10 then pop - 10 else 0);
          effective = roundToDouble (h - roundToDouble (of_int above * roundToDouble (1 / 10)));
          clamped = (if effective < - (1 / 2) then - (1 / 2)
                     else if effective > 3 / 2 then 3 / 2 else effective);
          perShop = \<lfloor>roundToDouble
                      (of_int (10 + \<lfloor>roundToDouble (of_int pop / 5)\<rfloor>) * clamped)\<rfloor>;
          perMarket = 10 * perShop
      in shops * perShop + markets * perMarket)"

text \<open>
  The cells of the footprint of size \<open>sz\<close> at \<open>(row, col)\<close> are on the grid and empty.
\<close>

definition areaFree :: "int \<Rightarrow> tile list list \<Rightarrow> int \<Rightarrow> int \<Rightarrow> int \<Rightarrow> bool" where
  "areaFree gridSize g row col sz =
     list_all (\<lambda>(r, c). isValidCoord gridSize r c \<and> \<not> occupied (tileAt g r c))
       (footprint row col sz)"

text \<open>A bare cell.\<close>

definition grassTile :: tile where
  "grassTile = \<lparr>texture = ''grass'', isFlipped = False, masterTile = None, isMaster = False\<rparr>"

text \<open>
  A 4 by 4 game played from the start: a house is built on \<open>(3, 3)\<close> and a shop on
  \<open>(2, 2)\<close>, which spends the starting money (\<open>townScene\<close>); 112 ticks bring in 9 each
  (\<open>richScene\<close>); then a university is built with its anchor on \<open>(0, 0)\<close>
  (\<open>universityScene\<close>). The lemmas \<open>townScene_reached\<close>, \<open>richScene_reached\<close> and
  \<open>universityScene_reached\<close> below show that the game runs so.
\<close>

definition townGrid :: "tile list list" where
  "townGrid =
     [[grassTile, grassTile, grassTile, grassTile],
      [grassTile, grassTile, grassTile, grassTile],
      [grassTile, grassTile, grassTile\<lparr>texture := ''shop''\<rparr>, grassTile],
      [grassTile, grassTile, grassTile, grassTile\<lparr>texture := ''house''\<rparr>]]"

definition townScene :: scene where
  "townScene =
     \<lparr>money = 0, population = 1, happiness = roundToDouble (1 - roundToDouble (1 / 10)),
      costs = initialCosts(''house'' \<mapsto> 66, ''shop'' \<mapsto> 44),
      grid = townGrid, previewFlipped = False\<rparr>"

definition richScene :: scene where
  "richScene = townScene\<lparr>money := 1008\<rparr>"

definition universityGrid :: "tile list list" where
  "universityGrid =
     [[\<lparr>texture = ''university'', isFlipped = False, masterTile = Some (0, 0), isMaster = True\<rparr>,
       grassTile\<lparr>masterTile := Some (0, 0)\<rparr>, grassTile, grassTile],
      [grassTile\<lparr>masterTile := Some (0, 0)\<rparr>, grassTile\<lparr>masterTile := Some (0, 0)\<rparr>,
       grassTile, grassTile],
      [grassTile, grassTile, grassTile\<lparr>texture := ''shop''\<rparr>, grassTile],
      [grassTile, grassTile, grassTile, grassTile\<lparr>texture := ''house''\<rparr>]]"

definition universityScene :: scene where
  "universityScene =
     \<lparr>money = 8, population = 0,
      happiness = roundToDouble (roundToDouble (1 - roundToDouble (1 / 10)) + roundToDouble (5 / 10)),
      costs = initialCosts(''house'' \<mapsto> 66, ''shop'' \<mapsto> 44, ''university'' \<mapsto> 1100),
      grid = universityGrid, previewFlipped = False\<rparr>"

text \<open>A fresh 8 by 8 game after a house was built on cell \<open>(5, 6)\<close>.\<close>

definition houseScene :: scene where
  "houseScene = snd (placeTile 8 (initialScene 8) 5 6 ''house'')"

text \<open>A 2 by 2 game with one shop and a population of 20, where shops lose money.\<close>

definition sadScene :: scene where
  "sadScene = (snd (placeTile 2 (initialScene 2) 0 0 ''shop''))\<lparr>population := 20\<rparr>"







text \<open>
  The footprint sizes of the kinds of the catalogue: a university and a market cover a
  block of 2 by 2 cells, every other kind covers one cell.
\<close>

definition footprintSize :: "kind \<Rightarrow> int" where
  "footprintSize k = (if k = ''university'' \<or> k = ''market'' then 2 else 1)"

text \<open>
  The sort key as the specification words it: \<open>row + col\<close>, plus \<open>size - 1\<close> for a kind
  of footprint size greater than 1, plus a bias of one tenth for anything but bare grass.
  An object without a row or a column sorts at 999, and an object without a texture has
  size 1.
\<close>

definition key_spec :: "entity \<Rightarrow> rat" where
  "key_spec a =
     (let row = (case gridRow a of Some r \<Rightarrow> r | None \<Rightarrow> 999);
          col = (case gridCol a of Some c \<Rightarrow> c | None \<Rightarrow> 999);
          sz = (case textureKey a of Some k \<Rightarrow> footprintSize k | None \<Rightarrow> 1)
      in of_int (row + col) + (if sz > 1 then of_int (sz - 1) else 0)
         + (if textureKey a \<noteq> Some ''grass'' then 1 / 10 else 0))"

text \<open>
  Objects of the container, as the comparator reads them: a house tile on \<open>(0, 1)\<close>, a
  university tile on \<open>(0, 0)\<close>, a grass tile and a park tile on \<open>(1, 0)\<close>, a market tile
  on \<open>(2, 0)\<close>, the preview image of a house hovering over \<open>(0, 1)\<close>, and what a second
  preview, of a university over \<open>(0, 0)\<close>, would be.
\<close>

definition houseEntity :: entity where
  "houseEntity = \<lparr>gridRow = Some 0, gridCol = Some 1, textureKey = Some ''house'', isPreview = False\<rparr>"

definition universityEntity :: entity where
  "universityEntity =
     \<lparr>gridRow = Some 0, gridCol = Some 0, textureKey = Some ''university'', isPreview = False\<rparr>"

definition grassEntity :: entity where
  "grassEntity = \<lparr>gridRow = Some 1, gridCol = Some 0, textureKey = Some ''grass'', isPreview = False\<rparr>"

definition previewEntity :: entity where
  "previewEntity = \<lparr>gridRow = Some 0, gridCol = Some 1, textureKey = Some ''house'', isPreview = True\<rparr>"

definition universityPreview :: entity where
  "universityPreview =
     \<lparr>gridRow = Some 0, gridCol = Some 0, textureKey = Some ''university'', isPreview = True\<rparr>"

definition parkEntity :: entity where
  "parkEntity = \<lparr>gridRow = Some 1, gridCol = Some 0, textureKey = Some ''park'', isPreview = False\<rparr>"

definition marketEntity :: entity where
  "marketEntity =
     \<lparr>gridRow = Some 2, gridCol = Some 0, textureKey = Some ''market'', isPreview = False\<rparr>"

text \<open>What the comparator reads of the tile on \<open>(r, c)\<close> of a grid.\<close>

definition entityOf :: "tile list list \<Rightarrow> int \<Rightarrow> int \<Rightarrow> entity" where
  "entityOf g r c =
     \<lparr>gridRow = Some r, gridCol = Some c, textureKey = Some (texture (tileAt g r c)),
      isPreview = False\<rparr>"

text \<open>
  The game of \<open>universityScene\<close> played on: five ticks bring in 14 each (\<open>fundedScene\<close>);
  the player flips the preview and places grass on the hidden cell \<open>(0, 1)\<close> of the
  university, which frees that cell alone (\<open>detachedScene\<close>); a house is then built on it
  (\<open>overlapScene\<close>).
\<close>

definition fundedScene :: scene where
  "fundedScene = universityScene\<lparr>money := 78\<rparr>"

definition detachedScene :: scene where
  "detachedScene =
     fundedScene\<lparr>previewFlipped := True,
       grid := setTileAt universityGrid 0 1 (grassTile\<lparr>isFlipped := True\<rparr>)\<rparr>"

definition overlapScene :: scene where
  "overlapScene =
     \<lparr>money = 12, population = 1,
      happiness = roundToDouble (roundToDouble (1 - roundToDouble (1 / 10)) + roundToDouble (5 / 10)),
      costs = initialCosts(''shop'' \<mapsto> 44, ''university'' \<mapsto> 1100, ''house'' \<mapsto> 73),
      grid = setTileAt universityGrid 0 1 (grassTile\<lparr>texture := ''house'', isFlipped := True\<rparr>),
      previewFlipped = True\<rparr>"

text \<open>
  A tile that shows a single-tile building, and the shape the source gives such a tile:
  no \<^verbatim>\<open>masterTile\<close> and not \<^verbatim>\<open>isMaster\<close>.
\<close>

definition singleTile :: "tile \<Rightarrow> bool" where
  "singleTile t =
     (texture t \<noteq> ''grass'' \<and> \<not> 1 < size_cfg (getBuildingConfig (texture t)))"

definition cleanTile :: "tile \<Rightarrow> bool" where
  "cleanTile t = (if singleTile t then masterTile t = None \<and> \<not> isMaster t else True)"

definition cleanGrid :: "tile list list \<Rightarrow> bool" where
  "cleanGrid g = list_all (list_all cleanTile) g"

text \<open>
  The scenes of a game: the scene the constructors build, and from a scene the scenes after
  a click on the grid (\<^verbatim>\<open>placeTile\<close>, for any cell and kind), after a right click (the
  preview flips), after a tick, and after the page is loaded again from what was saved.
\<close>

inductive reachable :: "int \<Rightarrow> scene \<Rightarrow> bool" for gridSize :: int where
  start: "0 < gridSize \<Longrightarrow> reachable gridSize (initialScene gridSize)"
| place: "reachable gridSize s \<Longrightarrow> reachable gridSize (snd (placeTile gridSize s row col type))"
| flip: "reachable gridSize s \<Longrightarrow> reachable gridSize (s\<lparr>previewFlipped := \<not> previewFlipped s\<rparr>)"
| tick: "reachable gridSize s \<Longrightarrow> reachable gridSize (handleTick gridSize s)"
| load: "reachable gridSize s \<Longrightarrow>
         loadGame gridSize (initialScene gridSize) (Some (saveGame gridSize s)) = Loaded s' \<Longrightarrow>
         reachable gridSize s'"

section \<open>Properties\<close>

subsection \<open>Auxiliary facts\<close>

text \<open>
  Values of the rounding: the double \<open>0.1\<close>; \<^verbatim>\<open>0.1 + 0.2\<close>, which is
  \<open>0.30000000000000004\<close>; two integers half way between doubles, which go to the even
  mantissa; and a double, which is left as it is.
\<close>

lemma roundToDouble_samples:
  "roundToDouble (1 / 10) = 3602879701896397 / 36028797018963968"
  "roundToDouble (roundToDouble (1 / 10) + roundToDouble (2 / 10)) =
     1351079888211149 / 4503599627370496"
  "roundToDouble 9007199254740993 = 9007199254740992"
  "roundToDouble 9007199254740995 = 9007199254740996"
  "roundToDouble (- (5 / 2)) = - (5 / 2)"
  by code_simp+

lemma footprint_2: "footprint r c 2 = [(r, c), (r, c + 1), (r + 1, c), (r + 1, c + 1)]"
  by (simp add: footprint_def upto_rec1)

lemma countTiles_nonneg: "0 \<le> countTiles gridSize g type"
  unfolding countTiles_def by (rule sum_list_nonneg) auto


lemma calculateIncome_spec:
  "calculateIncome gridSize s =
     income_spec (countTiles gridSize (grid s) ''shop'')
       (countTiles gridSize (grid s) ''market'') (population s) (happiness s)"
proof -
  have s: "0 \<le> countTiles gridSize (grid s) ''shop''"
    and m: "0 \<le> countTiles gridSize (grid s) ''market''"
    by (rule countTiles_nonneg)+
  have a: "max 0 (population s - 10) = (if population s > 10 then population s - 10 else 0)"
    by (simp add: max_def)
  have k: "Clamp v (- (1 / 2)) (3 / 2) =
      (if v < - (1 / 2) then - (1 / 2) else if v > 3 / 2 then 3 / 2 else v)" for v
    unfolding Clamp_def max_def min_def by auto
  show ?thesis
    using s m unfolding calculateIncome_def income_spec_def getEffectiveHappiness_def k a
    by (auto simp: Let_def)
qed

lemma wf_grid_nth:
  "wf_grid gridSize g \<Longrightarrow> isValidCoord gridSize r c \<Longrightarrow>
   nat r < length g \<and> nat c < length (g ! nat r)"
  by (auto simp: wf_grid_def isValidCoord_def list_all_length)

lemma tileAt_setTileAt:
  assumes "wf_grid gridSize g" "isValidCoord gridSize r c" "isValidCoord gridSize r' c'"
  shows "tileAt (setTileAt g r c t) r' c' = (if r' = r \<and> c' = c then t else tileAt g r' c')"
proof -
  have 1: "nat r < length g" "nat c < length (g ! nat r)"
    using wf_grid_nth [OF assms(1,2)] by simp_all
  have 2: "nat r' < length g" "nat c' < length (g ! nat r')"
    using wf_grid_nth [OF assms(1,3)] by simp_all
  have 3: "(nat r' = nat r) = (r' = r)" "(nat c' = nat c) = (c' = c)"
    using assms(2,3) by (auto simp: isValidCoord_def)
  show ?thesis
    using 1 2 3 by (auto simp: tileAt_def setTileAt_def nth_list_update)
qed

lemma wf_setTileAt:
  assumes "wf_grid gridSize g"
  shows "wf_grid gridSize (setTileAt g r c t)"
proof (cases "nat r < length g")
  case True
  with assms show ?thesis
    by (auto simp: wf_grid_def setTileAt_def list_all_length nth_list_update)
next
  case False
  then have "setTileAt g r c t = g"
    by (simp add: setTileAt_def list_update_beyond not_less)
  with assms show ?thesis
    by simp
qed

lemma checkArea_None:
  "checkArea gridSize g cells = None \<longleftrightarrow>
   list_all (\<lambda>(r, c). isValidCoord gridSize r c \<and> \<not> occupied (tileAt g r c)) cells"
  by (induction cells) (auto split: if_splits)

lemma set_footprint:
  "set (footprint row col sz) = {(r, c). row \<le> r \<and> r < row + sz \<and> col \<le> c \<and> c < col + sz}"
  by (auto simp: footprint_def)

lemma footprint_1: "footprint r c 1 = [(r, c)]"
  by (simp add: footprint_def)

lemma size_cfg_registry: "size_cfg (getBuildingConfig type) = 1 \<or> size_cfg (getBuildingConfig type) = 2"
  by (simp add: getBuildingConfig_def BuildingRegistry_def grass_cfg_def house_cfg_def shop_cfg_def
      park_cfg_def university_cfg_def market_cfg_def)

lemma anchor_in_footprint: "0 < sz \<Longrightarrow> (row, col) \<in> set (footprint row col sz)"
  by (simp add: set_footprint)

lemma placeTile_NeedMoney:
  assumes free: "areaFree gridSize (grid s) row col (size_cfg (getBuildingConfig type))"
    and ng: "type \<noteq> ''grass''"
    and pos: "0 < currentCost s type"
    and short: "money s < currentCost s type"
  shows "placeTile gridSize s row col type = (NeedMoney (currentCost s type), s)"
proof -
  have sz: "0 < size_cfg (getBuildingConfig type)"
    using size_cfg_registry [of type] by auto
  have all: "\<forall>(r, c) \<in> set (footprint row col (size_cfg (getBuildingConfig type))).
      isValidCoord gridSize r c \<and> \<not> occupied (tileAt (grid s) r c)"
    using free by (simp add: areaFree_def list_all_iff)
  have anchor: "isValidCoord gridSize row col" "\<not> occupied (tileAt (grid s) row col)"
    using all anchor_in_footprint [OF sz, of row col] by auto
  have chk: "checkArea gridSize (grid s) (footprint row col (size_cfg (getBuildingConfig type))) = None"
    using free by (simp add: checkArea_None areaFree_def)
  have old: "texture (tileAt (grid s) row col) = ''grass''"
    using anchor(2) by (simp add: occupied_def)
  show ?thesis
    using anchor chk old ng pos short
    by (simp add: placeTile_def Let_def)
qed

lemma placeTile_reorient:
  assumes valid: "isValidCoord gridSize row col"
    and tex: "texture (tileAt (grid s) row col) = type"
    and sz: "size_cfg (getBuildingConfig type) = 1"
    and mt: "masterTile (tileAt (grid s) row col) = None"
    and im: "\<not> isMaster (tileAt (grid s) row col)"
    and fl: "isFlipped (tileAt (grid s) row col) \<noteq> previewFlipped s"
  shows "placeTile gridSize s row col type =
     (Done, s\<lparr>grid := setTileAt (grid s) row col
                      ((tileAt (grid s) row col)\<lparr>isFlipped := previewFlipped s\<rparr>)\<rparr>)"
proof -
  have t: "(tileAt (grid s) row col)\<lparr>texture := type, isFlipped := previewFlipped s,
              masterTile := None, isMaster := False\<rparr> =
           (tileAt (grid s) row col)\<lparr>isFlipped := previewFlipped s\<rparr>"
    using tex mt im by (intro tile.equality) simp_all
  show ?thesis
    using valid tex sz fl by (simp add: placeTile_def Let_def finishTile_def t)
qed

lemma wf_markTiles:
  "wf_grid gridSize g \<Longrightarrow> wf_grid gridSize (markTiles g row col type nf cells)"
  by (induction cells arbitrary: g) (auto simp: Let_def wf_setTileAt)

lemma markTiles_masterTile:
  assumes "wf_grid gridSize g"
    and "list_all (\<lambda>(r, c). isValidCoord gridSize r c) cells"
    and "isValidCoord gridSize r c"
  shows "masterTile (tileAt (markTiles g row col type nf cells) r c) =
     (if (r, c) \<in> set cells then Some (row, col) else masterTile (tileAt g r c))"
  using assms
proof (induction cells arbitrary: g)
  case Nil
  then show ?case by simp
next
  case (Cons p cells)
  obtain r0 c0 where p: "p = (r0, c0)" by (cases p)
  show ?case
    using Cons.prems p
    by (simp add: Let_def Cons.IH wf_setTileAt tileAt_setTileAt)
qed

lemma markTiles_texture:
  assumes "wf_grid gridSize g"
    and "list_all (\<lambda>(r, c). isValidCoord gridSize r c) cells"
    and "isValidCoord gridSize r c"
  shows "texture (tileAt (markTiles g row col type nf cells) r c) =
     (if r = row \<and> c = col \<and> (row, col) \<in> set cells then type else texture (tileAt g r c))"
  using assms
proof (induction cells arbitrary: g)
  case Nil
  then show ?case by simp
next
  case (Cons p cells)
  obtain r0 c0 where p: "p = (r0, c0)" by (cases p)
  show ?case
    using Cons.prems p
    by (auto simp: Let_def Cons.IH wf_setTileAt tileAt_setTileAt)
qed

lemma grid_applyEffects: "grid (applyEffects sign e s) = grid s"
  by (simp add: applyEffects_def Let_def updatePopulation_def updateHappiness_def
      split: option.splits)

lemma grid_incrementCost: "grid (incrementCost type s) = grid s"
  by (simp add: incrementCost_def split: option.splits)

lemma grid_updateMoney: "grid (updateMoney amount s) = grid s"
  by (simp add: updateMoney_def)

lemma not_occupied_iff:
  "(\<not> occupied t) = (texture t = ''grass'' \<and> masterTile t = None)"
  by (simp only: occupied_def de_Morgan_disj not_not)

lemma checkArea_Some:
  "checkArea gridSize g cells = Some e \<Longrightarrow> e = BlockedOutside \<or> e = BlockedOccupied"
  by (induction cells) (auto split: if_splits)

lemma placeTile_Done_multi:
  assumes dn: "placeTile gridSize s row col type = (Done, s')"
    and multi: "1 < size_cfg (getBuildingConfig type)"
  shows "areaFree gridSize (grid s) row col (size_cfg (getBuildingConfig type)) \<and>
         grid s' = markTiles (grid s) row col type (previewFlipped s)
                     (footprint row col (size_cfg (getBuildingConfig type)))"
proof -
  have valid: "isValidCoord gridSize row col"
    using dn by (auto simp: placeTile_def split: if_splits)
  have chk: "checkArea gridSize (grid s) (footprint row col (size_cfg (getBuildingConfig type))) = None"
    using dn valid multi by (auto simp: placeTile_def Let_def split: option.splits dest: checkArea_Some)
  then have free: "areaFree gridSize (grid s) row col (size_cfg (getBuildingConfig type))"
    by (simp add: checkArea_None areaFree_def)
  then have "\<not> occupied (tileAt (grid s) row col)"
    using anchor_in_footprint [of "size_cfg (getBuildingConfig type)" row col] multi
    by (auto simp: areaFree_def list_all_iff)
  then have old: "texture (tileAt (grid s) row col) = ''grass''"
    "masterTile (tileAt (grid s) row col) = None"
    by (simp_all add: not_occupied_iff)
  have ng: "type \<noteq> ''grass''"
    using multi by (auto simp: getBuildingConfig_def BuildingRegistry_def grass_cfg_def)
  have "grid s' = markTiles (grid s) row col type (previewFlipped s)
                     (footprint row col (size_cfg (getBuildingConfig type)))"
    using dn valid multi chk old ng
    by (auto simp: placeTile_def Let_def finishTile_def grid_applyEffects grid_incrementCost
        grid_updateMoney split: if_splits option.splits)
  with free show ?thesis by simp
qed

lemma placeTile_Done_single:
  assumes dn: "placeTile gridSize s row col type = (Done, s')"
    and single: "\<not> 1 < size_cfg (getBuildingConfig type)"
    and ng: "type \<noteq> ''grass''"
  shows "isValidCoord gridSize row col \<and>
         grid s' = setTileAt (grid s) row col
           ((tileAt (grid s) row col)\<lparr>texture := type, isFlipped := previewFlipped s,
              masterTile := None, isMaster := False\<rparr>)"
proof -
  have valid: "isValidCoord gridSize row col"
    using dn by (auto simp: placeTile_def split: if_splits)
  have "grid s' = setTileAt (grid s) row col
           ((tileAt (grid s) row col)\<lparr>texture := type, isFlipped := previewFlipped s,
              masterTile := None, isMaster := False\<rparr>)"
    using dn valid single ng
    by (auto simp: placeTile_def Let_def finishTile_def grid_applyEffects grid_incrementCost
        grid_updateMoney occupied_def split: if_splits option.splits)
  with valid show ?thesis by simp
qed

subsection \<open>The sample scenes are reached by playing\<close>

lemma effect_literals:
  "roundToDouble (1 / 10) \<noteq> 0" "roundToDouble (1 / 5) \<noteq> 0" "roundToDouble (1 / 2) \<noteq> 0"
  by code_simp+

lemmas eval_defs = effect_literals placeTile_def Let_def isValidCoord_def getBuildingConfig_def BuildingRegistry_def
  grass_cfg_def house_cfg_def shop_cfg_def park_cfg_def university_cfg_def market_cfg_def
  no_effects_def tileAt_def setTileAt_def occupied_def currentCost_def unmetRequirement_def
  incrementCost_def updateMoney_def updatePopulation_def updateHappiness_def applyEffects_def
  finishTile_def footprint_def clearMultiTile_def upto_rec1 eval_nat_numeral grassTile_def

lemma initialScene_4:
  "initialScene 4 =
     \<lparr>money = 100, population = 0, happiness = 1, costs = initialCosts,
      grid = replicate 4 (replicate 4 grassTile), previewFlipped = False\<rparr>"
  by (simp add: initialScene_def initGrid_def newTile_def grassData_def grassTile_def upto_rec1
      eval_nat_numeral)

lemma initialCosts_simps:
  "initialCosts ''grass'' = Some 0" "initialCosts ''house'' = Some 60"
  "initialCosts ''shop'' = Some 40" "initialCosts ''park'' = Some 100"
  "initialCosts ''university'' = Some 1000" "initialCosts ''market'' = Some 10000"
  by (simp_all add: initialCosts_def BuildingRegistry_def grass_cfg_def house_cfg_def
      shop_cfg_def park_cfg_def university_cfg_def market_cfg_def)

lemma calculateIncome_money: "calculateIncome gridSize (s\<lparr>money := m\<rparr>) = calculateIncome gridSize s"
  by (simp add: calculateIncome_spec)

lemma funpow_handleTick:
  assumes "0 < calculateIncome gridSize s"
  shows "((handleTick gridSize) ^^ n) s =
         s\<lparr>money := money s + int n * calculateIncome gridSize s\<rparr>"
proof (induction n)
  case 0
  show ?case by simp
next
  case (Suc n)
  have "((handleTick gridSize) ^^ Suc n) s = handleTick gridSize (((handleTick gridSize) ^^ n) s)"
    by simp
  also have "\<dots> = handleTick gridSize (s\<lparr>money := money s + int n * calculateIncome gridSize s\<rparr>)"
    by (simp only: Suc)
  also have "\<dots> = s\<lparr>money := money s + int (Suc n) * calculateIncome gridSize s\<rparr>"
    using assms
    by (simp add: handleTick_def Let_def calculateIncome_money updateMoney_def algebra_simps)
  finally show ?case .
qed

lemma townScene_reached:
  "placeTile 4 (snd (placeTile 4 (initialScene 4) 3 3 ''house'')) 2 2 ''shop'' = (Done, townScene)"
  by (simp add: initialScene_4 eval_defs initialCosts_simps townScene_def townGrid_def)

lemma townScene_income: "calculateIncome 4 townScene = 9"
  by code_simp

lemma richScene_reached: "((handleTick 4) ^^ 112) townScene = richScene"
  by (simp add: funpow_handleTick townScene_income richScene_def) (simp add: townScene_def)

lemma universityScene_reached:
  "placeTile 4 richScene 0 0 ''university'' = (Done, universityScene)"
  by (simp add: richScene_def townScene_def townGrid_def eval_defs initialCosts_simps
      universityScene_def universityGrid_def)

lemma removal_at_anchor_cell:
  "placeTile 4 universityScene 0 0 ''grass'' =
     (Done, universityScene\<lparr>population := 1,
              happiness := roundToDouble (happiness universityScene - roundToDouble (5 / 10)),
              grid := townGrid\<rparr>)"
  by (simp add: universityScene_def universityGrid_def townGrid_def eval_defs initialCosts_simps)

subsection \<open>The checks and the commit of a placement\<close>

lemma newTile_data:
  "newTile \<lparr>type_td = texture t, flipped = isFlipped t, masterTile_td = masterTile t,
            isMaster_td = isMaster t\<rparr> = t"
  by (cases "isFlipped t") (simp_all add: newTile_def Let_def)

lemma nth_getGridData:
  assumes "0 \<le> r" "r < gridSize" "0 \<le> c" "c < gridSize"
  shows "newTile (getGridData gridSize g ! nat r ! nat c) = tileAt g r c"
  using assms by (simp add: getGridData_def Let_def newTile_data)

lemma coversGrid_getGridData: "coversGrid gridSize (getGridData gridSize g)"
  by (auto simp: coversGrid_def getGridData_def list_all_iff dest!: in_set_takeD)

lemma wf_initGrid: "0 \<le> gridSize \<Longrightarrow> wf_grid gridSize (initGrid gridSize d)"
  by (auto simp: wf_grid_def initGrid_def list_all_iff)

lemma initGrid_getGridData:
  assumes "wf_grid gridSize g"
  shows "initGrid gridSize (Some (getGridData gridSize g)) = g"
proof (rule nth_equalityI)
  show len: "length (initGrid gridSize (Some (getGridData gridSize g))) = length g"
    using assms by (auto simp: initGrid_def wf_grid_def)
  fix i
  assume "i < length (initGrid gridSize (Some (getGridData gridSize g)))"
  then have i: "i < length g" "int i < gridSize"
    using len assms by (auto simp: wf_grid_def)
  have row: "length (g ! i) = nat gridSize"
    using assms i by (auto simp: wf_grid_def list_all_length)
  show "initGrid gridSize (Some (getGridData gridSize g)) ! i = g ! i"
  proof (rule nth_equalityI)
    show "length (initGrid gridSize (Some (getGridData gridSize g)) ! i) = length (g ! i)"
      using i row by (simp add: initGrid_def)
    fix j
    assume "j < length (initGrid gridSize (Some (getGridData gridSize g)) ! i)"
    then have j: "int j < gridSize"
      using i by (simp add: initGrid_def)
    show "initGrid gridSize (Some (getGridData gridSize g)) ! i ! j = g ! i ! j"
      using i j nth_getGridData [of "int i" gridSize "int j" g]
      by (simp add: initGrid_def tileAt_def)
  qed
qed

lemma map_add_covered: "dom m1 \<subseteq> dom m2 \<Longrightarrow> m1 ++ m2 = m2"
  by (rule ext) (auto simp: map_add_def split: option.splits)

lemma loadGame_saveGame:
  assumes "wf_grid gridSize (grid s)" "dom (costs s0) \<subseteq> dom (costs s)"
  shows "loadGame gridSize s0 (Some (saveGame gridSize s)) =
         Loaded (s\<lparr>previewFlipped := previewFlipped s0\<rparr>)"
  using assms
  by (simp add: loadGame_def saveGame_def coversGrid_getGridData initGrid_getGridData
      map_add_covered)

lemma wf_clearTiles:
  "wf_grid gridSize g \<Longrightarrow> wf_grid gridSize (snd (clearTiles gridSize g cells))"
  by (induction cells arbitrary: g) (auto simp: wf_setTileAt)

lemma grid_clearMultiTile:
  "grid (snd (clearMultiTile gridSize s mp)) = grid s \<or>
   grid (snd (clearMultiTile gridSize s mp)) =
     snd (clearTiles gridSize (grid s)
       (footprint (fst mp) (snd mp)
         (size_cfg (getBuildingConfig (texture (tileAt (grid s) (fst mp) (snd mp)))))))"
  by (simp add: clearMultiTile_def Let_def grid_applyEffects split: prod.splits)

lemma wf_clearMultiTile:
  "wf_grid gridSize (grid s) \<Longrightarrow> wf_grid gridSize (grid (snd (clearMultiTile gridSize s mp)))"
  using grid_clearMultiTile [of gridSize s mp] by (auto simp: wf_clearTiles)

lemma costs_applyEffects: "costs (applyEffects sign e s) = costs s"
  by (simp add: applyEffects_def Let_def updatePopulation_def updateHappiness_def
      split: option.splits)

lemma costs_clearMultiTile: "costs (snd (clearMultiTile gridSize s mp)) = costs s"
  by (simp add: clearMultiTile_def Let_def costs_applyEffects split: prod.splits)

lemma dom_costs_incrementCost: "dom (costs (incrementCost type s)) = dom (costs s)"
  by (auto simp: incrementCost_def split: option.splits if_splits)

lemma wf_finishTile:
  "wf_grid gridSize (grid s) \<Longrightarrow> wf_grid gridSize (grid (finishTile m row col type nf s))"
  by (simp add: finishTile_def wf_setTileAt)

lemma costs_finishTile: "costs (finishTile m row col type nf s) = costs s"
  by (simp add: finishTile_def)

lemma placeTile_split:
  "placeTile gridSize s row col type =
     (if \<not> isValidCoord gridSize row col then (InvalidCoord, s)
      else
        case (if 1 < size_cfg (getBuildingConfig type)
              then checkArea gridSize (grid s)
                     (footprint row col (size_cfg (getBuildingConfig type)))
              else None) of
          Some e \<Rightarrow> (e, s)
        | None \<Rightarrow>
            if \<not> 1 < size_cfg (getBuildingConfig type) \<and> type \<noteq> ''grass'' \<and>
               occupied (tileAt (grid s) row col) \<and> texture (tileAt (grid s) row col) \<noteq> type
            then (OccupiedCell, s)
            else if texture (tileAt (grid s) row col) = type \<and>
                    isFlipped (tileAt (grid s) row col) = previewFlipped s \<and>
                    \<not> 1 < size_cfg (getBuildingConfig type)
            then (NoChange, s)
            else if texture (tileAt (grid s) row col) \<noteq> type then
              if 0 < currentCost s type \<and> money s < currentCost s type
              then (NeedMoney (currentCost s type), s)
              else
                case unmetRequirement (getBuildingConfig type) s of
                  Some p \<Rightarrow> (NeedPopulation p, s)
                | None \<Rightarrow> commitTile gridSize s row col type
            else (Done, finishTile (1 < size_cfg (getBuildingConfig type)) row col type
                          (previewFlipped s) s))"
  unfolding placeTile_def commitTile_def Let_def by (rule refl)

lemma commitTile_exit:
  "fst (commitTile gridSize s row col type) = Done \<or>
   fst (commitTile gridSize s row col type) = TypeError"
  by (simp add: commitTile_def Let_def split: prod.splits)

lemma wf_commitTile:
  assumes "wf_grid gridSize (grid s)"
  shows "wf_grid gridSize (grid (snd (commitTile gridSize s row col type)))"
proof -
  let ?s1 = "if currentCost s type > 0
             then incrementCost type (updateMoney (- currentCost s type) s) else s"
  have 1: "wf_grid gridSize (grid ?s1)"
    using assms by (simp add: grid_incrementCost grid_updateMoney)
  have 2: "wf_grid gridSize (grid (snd (clearMultiTile gridSize ?s1 mp)))" for mp
    using 1 by (rule wf_clearMultiTile)
  show ?thesis
    unfolding commitTile_def Let_def
    using 1 2
    by (auto simp: case_prod_beta wf_finishTile wf_markTiles grid_applyEffects
        split: option.splits)
qed

lemma dom_costs_commitTile:
  "dom (costs (snd (commitTile gridSize s row col type))) = dom (costs s)"
proof -
  have 1: "dom (costs (incrementCost type (updateMoney (- currentCost s type) s))) =
           dom (costs s)"
    by (simp add: dom_costs_incrementCost updateMoney_def)
  show ?thesis
    unfolding commitTile_def Let_def
    by (simp add: 1 case_prod_beta costs_finishTile costs_applyEffects costs_clearMultiTile
        split: option.splits)
qed

lemma wf_placeTile:
  "wf_grid gridSize (grid s) \<Longrightarrow> wf_grid gridSize (grid (snd (placeTile gridSize s row col type)))"
  by (simp add: placeTile_split wf_commitTile wf_finishTile split: option.splits)

lemma dom_costs_placeTile:
  "dom (costs (snd (placeTile gridSize s row col type))) = dom (costs s)"
  by (simp add: placeTile_split dom_costs_commitTile costs_finishTile split: option.splits)

lemma placeTile_exit_same:
  assumes "fst (placeTile gridSize s row col type) \<noteq> Done"
    and "fst (placeTile gridSize s row col type) \<noteq> TypeError"
  shows "snd (placeTile gridSize s row col type) = s"
  using assms commitTile_exit [of gridSize s row col type]
  by (auto simp: placeTile_split split: option.splits if_splits)

lemma reachable_invariant:
  "reachable gridSize s \<Longrightarrow> wf_grid gridSize (grid s) \<and> dom (costs s) = dom initialCosts"
proof (induction rule: reachable.induct)
  case start
  then show ?case
    by (simp add: initialScene_def wf_initGrid)
next
  case (place s row col type)
  then show ?case
    by (simp add: wf_placeTile dom_costs_placeTile)
next
  case (flip s)
  then show ?case by simp
next
  case (tick s)
  then show ?case
    by (simp add: handleTick_def Let_def updateMoney_def)
next
  case (load s s')
  then have "s' = s\<lparr>previewFlipped := previewFlipped (initialScene gridSize)\<rparr>"
    using loadGame_saveGame [of gridSize s "initialScene gridSize"]
    by (simp add: initialScene_def)
  with load show ?case by simp
qed

lemma reachable_ticks:
  "reachable gridSize s \<Longrightarrow> reachable gridSize (((handleTick gridSize) ^^ n) s)"
  by (induction n) (simp_all add: reachable.tick)

lemma reachable_townScene: "reachable 4 townScene"
proof -
  have "reachable 4 (initialScene 4)"
    by (simp add: reachable.start)
  then have "reachable 4 (snd (placeTile 4 (snd (placeTile 4 (initialScene 4) 3 3 ''house'')) 2 2 ''shop''))"
    by (intro reachable.place)
  then show ?thesis
    by (simp add: townScene_reached)
qed

lemma reachable_universityScene: "reachable 4 universityScene"
proof -
  have "reachable 4 (((handleTick 4) ^^ 112) townScene)"
    using reachable_townScene by (rule reachable_ticks)
  then have "reachable 4 (snd (placeTile 4 richScene 0 0 ''university''))"
    unfolding richScene_reached by (rule reachable.place)
  then show ?thesis
    by (simp add: universityScene_reached)
qed

subsection \<open>Invariants of the scenes of a game\<close>

lemma cleanGrid_setTileAt:
  assumes "cleanGrid g" "cleanTile t"
  shows "cleanGrid (setTileAt g r c t)"
proof (cases "nat r < length g")
  case True
  have rows: "\<forall>rw \<in> set g. \<forall>x \<in> set rw. cleanTile x"
    using assms(1) by (simp add: cleanGrid_def list_all_iff)
  have old: "\<forall>x \<in> set (g ! nat r). cleanTile x"
    using rows True nth_mem [of "nat r" g] by blast
  have new: "\<forall>x \<in> set ((g ! nat r)[nat c := t]). cleanTile x"
  proof
    fix x
    assume "x \<in> set ((g ! nat r)[nat c := t])"
    then have "x \<in> insert t (set (g ! nat r))"
      using set_update_subset_insert by fast
    with old assms(2) show "cleanTile x"
      by auto
  qed
  have "\<forall>rw \<in> set (g[nat r := (g ! nat r)[nat c := t]]). \<forall>x \<in> set rw. cleanTile x"
  proof
    fix rw
    assume "rw \<in> set (g[nat r := (g ! nat r)[nat c := t]])"
    then have "rw \<in> insert ((g ! nat r)[nat c := t]) (set g)"
      using set_update_subset_insert by fast
    with rows new show "\<forall>x \<in> set rw. cleanTile x"
      by auto
  qed
  then show ?thesis
    by (simp add: cleanGrid_def setTileAt_def list_all_iff)
next
  case False
  then have "setTileAt g r c t = g"
    by (simp add: setTileAt_def list_update_beyond not_less)
  with assms(1) show ?thesis
    by simp
qed

lemma cleanGrid_tileAt:
  "cleanGrid g \<Longrightarrow> wf_grid gridSize g \<Longrightarrow> isValidCoord gridSize r c \<Longrightarrow> cleanTile (tileAt g r c)"
  using wf_grid_nth [of gridSize g r c]
  by (simp add: cleanGrid_def tileAt_def list_all_length)

lemma cleanGrid_clearTiles:
  "cleanGrid g \<Longrightarrow> cleanGrid (snd (clearTiles gridSize g cells))"
  by (induction cells arbitrary: g)
    (auto simp: cleanGrid_setTileAt cleanTile_def singleTile_def)

lemma cleanGrid_clearMultiTile:
  "cleanGrid (grid s) \<Longrightarrow> cleanGrid (grid (snd (clearMultiTile gridSize s mp)))"
  using grid_clearMultiTile [of gridSize s mp] by (auto simp: cleanGrid_clearTiles)

lemma cleanGrid_markTiles:
  assumes "cleanGrid g" "wf_grid gridSize g" "1 < size_cfg (getBuildingConfig type)"
    and "list_all (\<lambda>(r, c). isValidCoord gridSize r c \<and>
                    (r = row \<and> c = col \<or> texture (tileAt g r c) = ''grass'')) cells"
  shows "cleanGrid (markTiles g row col type nf cells)"
  using assms
proof (induction cells arbitrary: g)
  case Nil
  then show ?case by simp
next
  case (Cons p cells)
  obtain r c where p: "p = (r, c)" by (cases p)
  let ?t = "(tileAt g r c)\<lparr>masterTile := Some (row, col)\<rparr>"
  let ?t' = "if r = row \<and> c = col
             then ?t\<lparr>texture := type, isFlipped := nf, isMaster := True\<rparr>
             else ?t\<lparr>isMaster := False\<rparr>"
  let ?g = "setTileAt g r c ?t'"
  have v: "isValidCoord gridSize r c"
    and tex: "r = row \<and> c = col \<or> texture (tileAt g r c) = ''grass''"
    using Cons.prems(4) p by simp_all
  have t': "cleanTile ?t'"
    using tex Cons.prems(3) by (auto simp: cleanTile_def singleTile_def)
  have 1: "cleanGrid ?g"
    using Cons.prems(1) t' by (rule cleanGrid_setTileAt)
  have 2: "wf_grid gridSize ?g"
    using Cons.prems(2) by (rule wf_setTileAt)
  have 3: "list_all (\<lambda>(r, c). isValidCoord gridSize r c \<and>
                    (r = row \<and> c = col \<or> texture (tileAt ?g r c) = ''grass'')) cells"
    unfolding list_all_iff
  proof (intro ballI, clarify)
    fix a b
    assume "(a, b) \<in> set cells"
    then have ab: "isValidCoord gridSize a b"
      "a = row \<and> b = col \<or> texture (tileAt g a b) = ''grass''"
      using Cons.prems(4) by (auto simp: list_all_iff)
    have "tileAt ?g a b = (if a = r \<and> b = c then ?t' else tileAt g a b)"
      using Cons.prems(2) v ab(1) by (rule tileAt_setTileAt)
    with ab tex
    show "isValidCoord gridSize a b \<and>
          (a = row \<and> b = col \<or> texture (tileAt ?g a b) = ''grass'')"
      by auto
  qed
  have "cleanGrid (markTiles ?g row col type nf cells)"
    using 1 2 Cons.prems(3) 3 by (rule Cons.IH)
  then show ?case
    by (simp add: p Let_def)
qed

lemma cleanGrid_finishTile:
  "cleanGrid (grid s) \<Longrightarrow> cleanGrid (grid (finishTile m row col type nf s))"
  by (simp add: finishTile_def cleanGrid_setTileAt cleanTile_def)

lemma areaFree_cells:
  assumes "areaFree gridSize g row col sz"
  shows "list_all (\<lambda>(r, c). isValidCoord gridSize r c \<and>
                    (r = row \<and> c = col \<or> texture (tileAt g r c) = ''grass''))
           (footprint row col sz)"
  using assms by (auto simp: areaFree_def list_all_iff not_occupied_iff)

lemma cleanGrid_commitTile:
  assumes c: "cleanGrid (grid s)" and wf: "wf_grid gridSize (grid s)"
    and free: "1 < size_cfg (getBuildingConfig type) \<Longrightarrow>
               areaFree gridSize (grid s) row col (size_cfg (getBuildingConfig type))"
  shows "cleanGrid (grid (snd (commitTile gridSize s row col type)))"
proof (cases "1 < size_cfg (getBuildingConfig type)")
  case True
  let ?sz = "size_cfg (getBuildingConfig type)"
  have fr: "areaFree gridSize (grid s) row col ?sz"
    using True by (rule free)
  then have "\<not> occupied (tileAt (grid s) row col)"
    using anchor_in_footprint [of ?sz row col] True
    by (auto simp: areaFree_def list_all_iff)
  then have old: "texture (tileAt (grid s) row col) = ''grass''"
    "masterTile (tileAt (grid s) row col) = None"
    by (simp_all add: not_occupied_iff)
  have m: "cleanGrid (markTiles (grid s) row col type (previewFlipped s) (footprint row col ?sz))"
    using c wf True areaFree_cells [OF fr] by (rule cleanGrid_markTiles)
  show ?thesis
    using True old m
    by (simp add: commitTile_def Let_def finishTile_def grid_applyEffects grid_incrementCost
        grid_updateMoney)
next
  case False
  let ?s1 = "if currentCost s type > 0
             then incrementCost type (updateMoney (- currentCost s type) s) else s"
  have 1: "cleanGrid (grid ?s1)"
    using c by (simp add: grid_incrementCost grid_updateMoney)
  have 2: "cleanGrid (grid (snd (clearMultiTile gridSize ?s1 mp)))" for mp
    using 1 by (rule cleanGrid_clearMultiTile)
  show ?thesis
    unfolding commitTile_def Let_def
    using False 1 2
    by (auto simp: case_prod_beta cleanGrid_finishTile grid_applyEffects
        split: option.splits)
qed

lemma cleanGrid_placeTile:
  assumes c: "cleanGrid (grid s)" and wf: "wf_grid gridSize (grid s)"
  shows "cleanGrid (grid (snd (placeTile gridSize s row col type)))"
proof -
  have "cleanGrid (grid (snd (commitTile gridSize s row col type)))"
    if "(if 1 < size_cfg (getBuildingConfig type)
         then checkArea gridSize (grid s)
                (footprint row col (size_cfg (getBuildingConfig type)))
         else None) = None"
    using c wf
  proof (rule cleanGrid_commitTile)
    assume "1 < size_cfg (getBuildingConfig type)"
    with that show "areaFree gridSize (grid s) row col (size_cfg (getBuildingConfig type))"
      by (simp add: checkArea_None areaFree_def)
  qed
  with c show ?thesis
    by (simp add: placeTile_split cleanGrid_finishTile split: option.splits)
qed

lemma grass_cost_incrementCost:
  "costs s ''grass'' = Some 0 \<Longrightarrow> costs (incrementCost type s) ''grass'' = Some 0"
  by (auto simp: incrementCost_def split: option.splits)

lemma grass_cost_commitTile:
  assumes "costs s ''grass'' = Some 0"
  shows "costs (snd (commitTile gridSize s row col type)) ''grass'' = Some 0"
proof -
  have 1: "costs (incrementCost type (updateMoney (- currentCost s type) s)) ''grass'' = Some 0"
    using assms by (simp add: grass_cost_incrementCost updateMoney_def)
  show ?thesis
    unfolding commitTile_def Let_def
    using assms
    by (simp add: 1 case_prod_beta costs_finishTile costs_applyEffects costs_clearMultiTile
        split: option.splits)
qed

lemma grass_cost_placeTile:
  "costs s ''grass'' = Some 0 \<Longrightarrow>
   costs (snd (placeTile gridSize s row col type)) ''grass'' = Some 0"
  by (simp add: placeTile_split grass_cost_commitTile costs_finishTile split: option.splits)

lemma cleanGrid_initGrid: "cleanGrid (initGrid gridSize None)"
  by (simp add: cleanGrid_def initGrid_def list_all_iff newTile_def grassData_def
      cleanTile_def singleTile_def)

lemma reachable_clean:
  "reachable gridSize s \<Longrightarrow> cleanGrid (grid s) \<and> costs s ''grass'' = Some 0"
proof (induction rule: reachable.induct)
  case start
  then show ?case
    by (simp add: initialScene_def cleanGrid_initGrid initialCosts_simps)
next
  case (place s row col type)
  then show ?case
    using reachable_invariant [of gridSize s]
    by (simp add: cleanGrid_placeTile grass_cost_placeTile)
next
  case (flip s)
  then show ?case by simp
next
  case (tick s)
  then show ?case
    by (simp add: handleTick_def Let_def updateMoney_def)
next
  case (load s s')
  then have "s' = s\<lparr>previewFlipped := previewFlipped (initialScene gridSize)\<rparr>"
    using loadGame_saveGame [of gridSize s "initialScene gridSize"]
      reachable_invariant [of gridSize s]
    by (simp add: initialScene_def)
  with load show ?case by simp
qed

subsection \<open>Refused placements\<close>

text \<open>
  Claim C3. Whenever \<^verbatim>\<open>placeTile\<close> refuses a placement, for any of the reasons
  OutOfBounds, Occupied, InsufficientFunds or PrerequisiteNotMet, the scene it leaves is
  the scene it found: grid, money, population, happiness and costs are unchanged.
  In particular, on a grid that contains the cells, a kind of size 2 placed at \<open>(5, 5)\<close>
  while one of \<open>(5, 6)\<close>, \<open>(6, 5)\<close>, \<open>(6, 6)\<close> is occupied is refused as Occupied and
  the scene is unchanged.
\<close>

theorem placeTile_refusal_no_mutation:
  "(reasonOf (fst (placeTile gridSize s row col type)) \<noteq> None \<longrightarrow>
      snd (placeTile gridSize s row col type) = s) \<and>
   (7 \<le> gridSize \<and> size_cfg (getBuildingConfig type) = 2 \<and>
    (occupied (tileAt (grid s) 5 6) \<or> occupied (tileAt (grid s) 6 5) \<or>
     occupied (tileAt (grid s) 6 6)) \<longrightarrow>
      reasonOf (fst (placeTile gridSize s 5 5 type)) = Some Occupied \<and>
      snd (placeTile gridSize s 5 5 type) = s)"
proof (intro conjI impI)
  assume "reasonOf (fst (placeTile gridSize s row col type)) \<noteq> None"
  then have "fst (placeTile gridSize s row col type) \<noteq> Done"
    and "fst (placeTile gridSize s row col type) \<noteq> TypeError"
    by auto
  then show "snd (placeTile gridSize s row col type) = s"
    by (rule placeTile_exit_same)
next
  assume a: "7 \<le> gridSize \<and> size_cfg (getBuildingConfig type) = 2 \<and>
    (occupied (tileAt (grid s) 5 6) \<or> occupied (tileAt (grid s) 6 5) \<or>
     occupied (tileAt (grid s) 6 6))"
  then have "placeTile gridSize s 5 5 type = (BlockedOccupied, s)"
    by (auto simp: placeTile_def Let_def footprint_2 isValidCoord_def)
  then show "reasonOf (fst (placeTile gridSize s 5 5 type)) = Some Occupied"
    and "snd (placeTile gridSize s 5 5 type) = s"
    by simp_all
qed

theorem placeTile_refusal_no_mutation_witness:
  "reasonOf (fst (placeTile 8 houseScene 0 0 ''university'')) = Some InsufficientFunds \<and>
   snd (placeTile 8 houseScene 0 0 ''university'') = houseScene \<and>
   occupied (tileAt (grid houseScene) 5 6) \<and>
   reasonOf (fst (placeTile 8 houseScene 5 5 ''university'')) = Some Occupied \<and>
   snd (placeTile 8 houseScene 5 5 ''university'') = houseScene"
proof -
  have h1: "reasonOf (fst (placeTile 8 houseScene 0 0 ''university'')) = Some InsufficientFunds"
    by code_simp
  have h2: "occupied (tileAt (grid houseScene) 5 6)"
    by code_simp
  have h3: "size_cfg (getBuildingConfig ''university'') = 2"
    by code_simp
  show ?thesis
    using placeTile_refusal_no_mutation [of 8 houseScene 0 0 "''university''"] h1 h2 h3
    by simp
qed

subsection \<open>Removal\<close>

text \<open>
  Claim C1 asks that removal (placing grass) at any cell of a multi-tile footprint clears
  the whole footprint and reverses the effects once. The source does so at the anchor
  cell only (\<open>removal_at_anchor_cell\<close>). At another cell of the footprint the texture is
  grass already, so the test \<^verbatim>\<open>oldType !== type\<close> that guards \<^verbatim>\<open>clearMultiTile\<close> fails:
  with the preview unflipped nothing happens at all, and with the preview flipped the
  cell alone loses its \<^verbatim>\<open>masterTile\<close> while the university, its other cells and its
  effects stay.
\<close>

theorem removal_at_non_anchor_cell:
  "placeTile 4 universityScene 0 1 ''grass'' = (NoChange, universityScene) \<and>
   placeTile 4 (universityScene\<lparr>previewFlipped := True\<rparr>) 0 1 ''grass'' =
     (Done, universityScene\<lparr>previewFlipped := True,
              grid := setTileAt universityGrid 0 1 (grassTile\<lparr>isFlipped := True\<rparr>)\<rparr>)"
  by (simp add: universityScene_def universityGrid_def eval_defs initialCosts_simps)

subsection \<open>Successful placements\<close>

text \<open>
  Claim C2, amended. After a successful placement of a kind other than grass at
  \<open>(row, col)\<close>, every cell of its footprint is occupied and the anchor cell shows the
  kind. For a kind of size greater than 1 every cell of the footprint carries
  \<^verbatim>\<open>masterTile = {row, col}\<close>; for a kind of size 1 the cell carries no anchor
  reference (\<^verbatim>\<open>masterTile\<close> is null): it is its own anchor.
\<close>

theorem placeTile_marks_footprint:
  assumes wf: "wf_grid gridSize (grid s)"
    and dn: "placeTile gridSize s row col type = (Done, s')"
    and ng: "type \<noteq> ''grass''"
    and mem: "(r, c) \<in> set (footprint row col (size_cfg (getBuildingConfig type)))"
  shows "occupied (tileAt (grid s') r c) \<and>
         masterTile (tileAt (grid s') r c) =
           (if 1 < size_cfg (getBuildingConfig type) then Some (row, col) else None) \<and>
         texture (tileAt (grid s') row col) = type"
proof (cases "1 < size_cfg (getBuildingConfig type)")
  case True
  let ?cells = "footprint row col (size_cfg (getBuildingConfig type))"
  from placeTile_Done_multi [OF dn True]
  have free: "areaFree gridSize (grid s) row col (size_cfg (getBuildingConfig type))"
    and g: "grid s' = markTiles (grid s) row col type (previewFlipped s) ?cells"
    by simp_all
  have cells: "list_all (\<lambda>(r, c). isValidCoord gridSize r c) ?cells"
    using free by (auto simp: areaFree_def list_all_iff)
  have anchor: "(row, col) \<in> set ?cells"
    using True by (simp add: anchor_in_footprint)
  have v: "isValidCoord gridSize r c" "isValidCoord gridSize row col"
    using cells mem anchor by (auto simp: list_all_iff)
  have m: "masterTile (tileAt (grid s') r c) = Some (row, col)"
    using mem by (simp add: g markTiles_masterTile [OF wf cells v(1)])
  have t: "texture (tileAt (grid s') row col) = type"
    using anchor by (simp add: g markTiles_texture [OF wf cells v(2)])
  show ?thesis
    using True m t by (simp add: occupied_def)
next
  case False
  then have one: "size_cfg (getBuildingConfig type) = 1"
    using size_cfg_registry [of type] by auto
  from placeTile_Done_single [OF dn False ng]
  have v: "isValidCoord gridSize row col"
    and g: "grid s' = setTileAt (grid s) row col
           ((tileAt (grid s) row col)\<lparr>texture := type, isFlipped := previewFlipped s,
              masterTile := None, isMaster := False\<rparr>)"
    by simp_all
  have rc: "r = row" "c = col"
    using mem by (simp_all add: one footprint_1)
  show ?thesis
    using False ng by (simp add: rc g tileAt_setTileAt [OF wf v v] occupied_def)
qed

theorem placeTile_marks_footprint_witness:
  "wf_grid 4 (grid richScene) \<and>
   placeTile 4 richScene 0 0 ''university'' = (Done, universityScene) \<and>
   (1, 1) \<in> set (footprint 0 0 (size_cfg (getBuildingConfig ''university''))) \<and>
   occupied (tileAt (grid universityScene) 1 1) \<and>
   masterTile (tileAt (grid universityScene) 1 1) = Some (0, 0) \<and>
   texture (tileAt (grid universityScene) 0 0) = ''university''"
proof -
  have h1: "wf_grid 4 (grid richScene)"
    by code_simp
  have h4: "size_cfg (getBuildingConfig ''university'') = 2"
    by code_simp
  have h5: "(1, 1) \<in> set (footprint 0 0 (size_cfg (getBuildingConfig ''university'')))"
    by (simp add: h4 footprint_2)
  have h6: "''university'' \<noteq> ''grass''"
    by simp
  show ?thesis
    using placeTile_marks_footprint [OF h1 universityScene_reached h6 h5] h1 h4 h5
      universityScene_reached
    by simp
qed

text \<open>
  Claim C2 as stated fails for a kind of size 1: the house built on \<open>(5, 6)\<close> of a fresh
  8 by 8 game covers that cell only, and the cell carries no anchor reference.
\<close>

theorem single_tile_has_no_anchor_reference:
  "fst (placeTile 8 (initialScene 8) 5 6 ''house'') = Done \<and>
   footprint 5 6 (size_cfg (getBuildingConfig ''house'')) = [(5, 6)] \<and>
   masterTile (tileAt (grid (snd (placeTile 8 (initialScene 8) 5 6 ''house''))) 5 6) = None"
  by code_simp

text \<open>
  Claim C4. In every scene of a game, when the cells of the footprint are on the grid and
  empty, and the current cost of the kind is positive and greater than the money,
  \<^verbatim>\<open>placeTile\<close> refuses with "NEED $cost" (InsufficientFunds) and the money is unchanged.
\<close>

theorem placeTile_insufficient_funds:
  assumes r: "reachable gridSize s"
    and free: "areaFree gridSize (grid s) row col (size_cfg (getBuildingConfig type))"
    and pos: "0 < currentCost s type"
    and short: "money s < currentCost s type"
  shows "reasonOf (fst (placeTile gridSize s row col type)) = Some InsufficientFunds \<and>
         money (snd (placeTile gridSize s row col type)) = money s"
proof -
  have "currentCost s ''grass'' = 0"
    using reachable_clean [OF r]
    by (simp add: currentCost_def getBuildingConfig_def BuildingRegistry_def grass_cfg_def)
  with pos have "type \<noteq> ''grass''"
    by auto
  then show ?thesis
    by (simp add: placeTile_NeedMoney [OF free _ pos short])
qed

theorem placeTile_insufficient_funds_witness:
  "reachable 4 townScene \<and>
   areaFree 4 (grid townScene) 0 0 (size_cfg (getBuildingConfig ''market'')) \<and>
   currentCost townScene ''market'' = 10000 \<and> money townScene = 0 \<and>
   reasonOf (fst (placeTile 4 townScene 0 0 ''market'')) = Some InsufficientFunds \<and>
   money (snd (placeTile 4 townScene 0 0 ''market'')) = money townScene"
proof -
  have h1: "areaFree 4 (grid townScene) 0 0 (size_cfg (getBuildingConfig ''market''))"
    by code_simp
  have h3: "currentCost townScene ''market'' = 10000"
    by code_simp
  have h4: "money townScene = 0"
    by (simp add: townScene_def)
  show ?thesis
    using placeTile_insufficient_funds [OF reachable_townScene h1, unfolded h3 h4]
      reachable_townScene h1 h3 h4
    by simp
qed

text \<open>
  Claim C9. In every scene of a game, on a cell that holds a single-tile building of the
  kind being placed, with the other orientation, \<^verbatim>\<open>placeTile\<close> runs to its end without an
  occupancy refusal;
  money, population, happiness and costs are unchanged, the cell changes in its flip
  flag only, and every other cell is unchanged.
\<close>

theorem placeTile_reorientation:
  assumes r: "reachable gridSize s"
    and valid: "isValidCoord gridSize row col"
    and tex: "texture (tileAt (grid s) row col) = type"
    and ng: "type \<noteq> ''grass''"
    and sz: "size_cfg (getBuildingConfig type) = 1"
    and fl: "isFlipped (tileAt (grid s) row col) \<noteq> previewFlipped s"
  shows "fst (placeTile gridSize s row col type) = Done \<and>
         money (snd (placeTile gridSize s row col type)) = money s \<and>
         population (snd (placeTile gridSize s row col type)) = population s \<and>
         happiness (snd (placeTile gridSize s row col type)) = happiness s \<and>
         costs (snd (placeTile gridSize s row col type)) = costs s \<and>
         tileAt (grid (snd (placeTile gridSize s row col type))) row col =
           (tileAt (grid s) row col)\<lparr>isFlipped := previewFlipped s\<rparr> \<and>
         (\<forall>r c. isValidCoord gridSize r c \<and> (r, c) \<noteq> (row, col) \<longrightarrow>
            tileAt (grid (snd (placeTile gridSize s row col type))) r c = tileAt (grid s) r c)"
proof -
  have wf: "wf_grid gridSize (grid s)"
    using reachable_invariant [OF r] by simp
  have "cleanGrid (grid s)"
    using reachable_clean [OF r] by simp
  then have "cleanTile (tileAt (grid s) row col)"
    using wf valid by (rule cleanGrid_tileAt)
  then have mt: "masterTile (tileAt (grid s) row col) = None"
    and im: "\<not> isMaster (tileAt (grid s) row col)"
    using tex ng sz by (simp_all add: cleanTile_def singleTile_def)
  show ?thesis
    by (simp add: placeTile_reorient [OF valid tex sz mt im fl] tileAt_setTileAt [OF wf valid]
        tileAt_setTileAt [OF wf valid valid])
qed

theorem placeTile_reorientation_witness:
  "reachable 4 (townScene\<lparr>previewFlipped := True\<rparr>) \<and>
   fst (placeTile 4 (townScene\<lparr>previewFlipped := True\<rparr>) 3 3 ''house'') = Done \<and>
   money (snd (placeTile 4 (townScene\<lparr>previewFlipped := True\<rparr>) 3 3 ''house'')) = 0 \<and>
   tileAt (grid (snd (placeTile 4 (townScene\<lparr>previewFlipped := True\<rparr>) 3 3 ''house''))) 3 3 =
     grassTile\<lparr>texture := ''house'', isFlipped := True\<rparr> \<and>
   tileAt (grid (snd (placeTile 4 (townScene\<lparr>previewFlipped := True\<rparr>) 3 3 ''house''))) 2 2 =
     grassTile\<lparr>texture := ''shop''\<rparr>"
proof -
  let ?s = "townScene\<lparr>previewFlipped := True\<rparr>"
  have g: "grid ?s = townGrid" "previewFlipped ?s = True" "money ?s = 0"
    by (simp_all add: townScene_def)
  have "reachable 4 (townScene\<lparr>previewFlipped := \<not> previewFlipped townScene\<rparr>)"
    using reachable_townScene by (rule reachable.flip)
  then have h1: "reachable 4 ?s"
    by (simp add: townScene_def)
  have h2: "isValidCoord 4 3 3" "isValidCoord 4 2 2"
    by (simp_all add: isValidCoord_def)
  have t: "tileAt townGrid 3 3 = grassTile\<lparr>texture := ''house''\<rparr>"
    "tileAt townGrid 2 2 = grassTile\<lparr>texture := ''shop''\<rparr>"
    by (simp_all add: townGrid_def tileAt_def eval_nat_numeral)
  have h3: "texture (tileAt (grid ?s) 3 3) = ''house''"
    and h7: "isFlipped (tileAt (grid ?s) 3 3) \<noteq> previewFlipped ?s"
    by (simp_all add: g t grassTile_def)
  have h4: "size_cfg (getBuildingConfig ''house'') = 1"
    by code_simp
  have h5: "''house'' \<noteq> ''grass''"
    by simp
  show ?thesis
    using placeTile_reorientation [OF h1 h2(1) h3 h5 h4 h7] h1 h2(2)
    by (simp add: g t grassTile_def)
qed

subsection \<open>Tick economy\<close>















text \<open>
  Claim C10. A tick never decreases the money: when the income is zero or negative the
  money is left as it is, and otherwise the income is added.
\<close>

theorem handleTick_money_mono:
  "money s \<le> money (handleTick gridSize s) \<and>
   (calculateIncome gridSize s \<le> 0 \<longrightarrow> money (handleTick gridSize s) = money s)"
  by (simp add: handleTick_def Let_def updateMoney_def)

theorem handleTick_money_mono_witness:
  "calculateIncome 2 sadScene = - 2 \<and>
   money sadScene \<le> money (handleTick 2 sadScene) \<and>
   money (handleTick 2 sadScene) = money sadScene"
proof -
  have h: "calculateIncome 2 sadScene = - 2"
    by code_simp
  show ?thesis
    using handleTick_money_mono [of sadScene 2] h by simp
qed

subsection \<open>Depth order\<close>


lemma footprintSize_registry: "size_cfg (getBuildingConfig k) = footprintSize k"
  by (simp add: footprintSize_def getBuildingConfig_def BuildingRegistry_def grass_cfg_def
      house_cfg_def shop_cfg_def park_cfg_def university_cfg_def market_cfg_def)

lemma depthOf_key_spec: "depthOf a = key_spec a"
  by (simp add: depthOf_def key_spec_def Let_def rowOf_def colOf_def configOf_def
      footprintSize_registry grass_cfg_def split: option.splits)

lemma depthOf_shape: "\<exists>n::int. depthOf a = of_int n \<or> depthOf a = of_int n + 1 / 10"
proof -
  let ?n = "rowOf a + colOf a + (if size_cfg (configOf a) > 1 then size_cfg (configOf a) - 1 else 0)"
  have "depthOf a = of_int ?n \<or> depthOf a = of_int ?n + 1 / 10"
    by (simp add: depthOf_def Let_def)
  then show ?thesis by blast
qed

lemma int_gap:
  fixes k :: int and d :: rat
  assumes "d = 0 \<or> d = 1 / 10 \<or> d = - (1 / 10)" "of_int k + d \<noteq> 0"
  shows "\<bar>of_int k + d\<bar> > 1 / 100"
proof -
  have b: "- (1 / 10) \<le> d" "d \<le> 1 / 10"
    using assms(1) by auto
  consider "k = 0" | "1 \<le> k" | "k \<le> - 1"
    by arith
  then show ?thesis
  proof cases
    case 1
    with assms show ?thesis by auto
  next
    case 2
    then have "(1 :: rat) \<le> of_int k"
      by simp
    with b show ?thesis by linarith
  next
    case 3
    then have "(of_int k :: rat) \<le> - 1"
      by (metis of_int_le_iff of_int_1 of_int_minus)
    with b show ?thesis by linarith
  qed
qed

lemma depth_gap:
  assumes "depthOf a \<noteq> depthOf b"
  shows "\<bar>depthOf a - depthOf b\<bar> > 1 / 100"
proof -
  obtain n where n: "depthOf a = of_int n \<or> depthOf a = of_int n + 1 / 10"
    using depthOf_shape by blast
  obtain m where m: "depthOf b = of_int m \<or> depthOf b = of_int m + 1 / 10"
    using depthOf_shape by blast
  define d where "d = depthOf a - depthOf b - of_int (n - m)"
  have d: "d = 0 \<or> d = 1 / 10 \<or> d = - (1 / 10)"
    using n m unfolding d_def by auto
  have e: "depthOf a - depthOf b = of_int (n - m) + d"
    unfolding d_def by simp
  have "of_int (n - m) + d \<noteq> 0"
    using assms e by simp
  with d show ?thesis
    unfolding e by (rule int_gap)
qed

lemma depthCompare_neq:
  "depthOf a \<noteq> depthOf b \<Longrightarrow> depthCompare a b = depthOf a - depthOf b"
  using depth_gap [of a b] by (simp add: depthCompare_def Let_def)

lemma depthCompare_eq:
  "depthOf a = depthOf b \<Longrightarrow>
   depthCompare a b =
     (if rowOf a \<noteq> rowOf b then of_int (rowOf a - rowOf b)
      else if isPreview a then 1 else if isPreview b then - 1 else 0)"
  by (simp add: depthCompare_def Let_def)

lemma grass_key: "textureKey b = Some ''grass'' \<Longrightarrow> depthOf b = of_int (rowOf b + colOf b)"
  by (simp add: depthOf_def Let_def configOf_def getBuildingConfig_def BuildingRegistry_def
      grass_cfg_def)

lemma building_key:
  "textureKey a \<noteq> Some ''grass'' \<Longrightarrow> of_int (rowOf a + colOf a) + 1 / 10 \<le> depthOf a"
  by (simp add: depthOf_def Let_def)

text \<open>
  Claim C6. The comparator orders by the key \<open>row + col\<close>, plus \<open>size - 1\<close> for a kind of
  size greater than 1, plus a small bias for anything but grass, where the size of a kind
  is the size of the footprint that a placement of the kind covers. Two objects whose keys
  differ compare by the difference of their keys, so the smaller key sorts first; a
  building and a grass tile with the same \<open>row + col\<close> never tie: the building sorts after.
\<close>

theorem depthCompare_by_key:
  "depthOf a = key_spec a \<and>
   size_cfg (getBuildingConfig k) = footprintSize k \<and>
   (key_spec a \<noteq> key_spec b \<longrightarrow> depthCompare a b = key_spec a - key_spec b) \<and>
   (key_spec a < key_spec b \<longrightarrow> depthCompare a b < 0 \<and> 0 < depthCompare b a) \<and>
   (textureKey a \<noteq> Some ''grass'' \<and> textureKey b = Some ''grass'' \<and>
    rowOf a + colOf a = rowOf b + colOf b \<longrightarrow>
      key_spec b < key_spec a \<and> 0 < depthCompare a b \<and> depthCompare b a < 0)"
proof (intro conjI impI)
  show "depthOf a = key_spec a"
    by (rule depthOf_key_spec)
  show "size_cfg (getBuildingConfig k) = footprintSize k"
    by (rule footprintSize_registry)
  show "depthCompare a b = key_spec a - key_spec b" if "key_spec a \<noteq> key_spec b"
    using that depthCompare_neq [of a b] by (simp add: depthOf_key_spec)
  show "depthCompare a b < 0" "0 < depthCompare b a" if "key_spec a < key_spec b"
    using that depthCompare_neq [of a b] depthCompare_neq [of b a]
    by (simp_all add: depthOf_key_spec)
next
  assume h: "textureKey a \<noteq> Some ''grass'' \<and> textureKey b = Some ''grass'' \<and>
    rowOf a + colOf a = rowOf b + colOf b"
  have lt: "depthOf b < depthOf a"
    using h grass_key [of b] building_key [of a] by simp
  then show "key_spec b < key_spec a"
    by (simp add: depthOf_key_spec)
  show "0 < depthCompare a b" "depthCompare b a < 0"
    using lt depthCompare_neq [of a b] depthCompare_neq [of b a] by simp_all
qed

theorem depthCompare_by_key_witness:
  "key_spec universityEntity = 11 / 10 \<and> key_spec marketEntity = 31 / 10 \<and>
   key_spec houseEntity = 11 / 10 \<and> key_spec grassEntity = 1 \<and>
   footprint 0 0 (size_cfg (getBuildingConfig ''university'')) = [(0, 0), (0, 1), (1, 0), (1, 1)] \<and>
   depthCompare universityEntity grassEntity = 1 / 10 \<and>
   depthCompare grassEntity universityEntity < 0 \<and>
   depthCompare houseEntity marketEntity = - 2 \<and>
   depthCompare houseEntity grassEntity = 1 / 10 \<and>
   depthCompare grassEntity houseEntity < 0"
proof -
  have k: "key_spec universityEntity = 11 / 10" "key_spec marketEntity = 31 / 10"
    "key_spec houseEntity = 11 / 10" "key_spec grassEntity = 1"
    by (simp_all add: key_spec_def footprintSize_def universityEntity_def marketEntity_def
        houseEntity_def grassEntity_def)
  have s: "footprintSize ''university'' = 2"
    by (simp add: footprintSize_def)
  have t: "textureKey houseEntity \<noteq> Some ''grass''" "textureKey grassEntity = Some ''grass''"
    "rowOf houseEntity + colOf houseEntity = rowOf grassEntity + colOf grassEntity"
    by (simp_all add: houseEntity_def grassEntity_def rowOf_def colOf_def)
  have 1: "size_cfg (getBuildingConfig ''university'') = 2"
    "depthCompare universityEntity grassEntity = 1 / 10"
    using depthCompare_by_key [of universityEntity "''university''" grassEntity] k s
    by simp_all
  have 2: "depthCompare grassEntity universityEntity < 0"
    using depthCompare_by_key [of grassEntity "''university''" universityEntity] k by simp
  have 3: "depthCompare houseEntity marketEntity = - 2"
    using depthCompare_by_key [of houseEntity "''market''" marketEntity] k by simp
  have 4: "depthCompare houseEntity grassEntity = 1 / 10"
    "depthCompare grassEntity houseEntity < 0"
    using depthCompare_by_key [of houseEntity "''house''" grassEntity] k t by simp_all
  show ?thesis
    using k 1 2 3 4 by (simp add: footprint_2)
qed

lemma mset_insertBy: "mset (insertBy cmp x ys) = add_mset x (mset ys)"
  by (induction ys) auto

lemma mset_sortBy: "mset (sortBy cmp xs) = mset xs"
  by (induction xs) (simp_all add: sortBy_def mset_insertBy)

lemma set_insertBy: "set (insertBy cmp x ys) = insert x (set ys)"
  by (induction ys) auto

lemma depthCompare_antisym:
  "\<not> (isPreview a \<and> isPreview b) \<Longrightarrow> depthCompare b a = - depthCompare a b"
proof (cases "depthOf a = depthOf b")
  case True
  assume "\<not> (isPreview a \<and> isPreview b)"
  with True show ?thesis
    by (auto simp: depthCompare_eq)
next
  case False
  then show ?thesis
    using depthCompare_neq [of a b] depthCompare_neq [of b a] by simp
qed

text \<open>
  Between two previews with equal key and row the comparator answers 1 both ways; the
  scene has one preview only.
\<close>

lemma depthCompare_two_previews:
  "depthCompare previewEntity universityPreview = 1 \<and>
   depthCompare universityPreview previewEntity = 1"
  by code_simp

lemma depthCompare_less_iff:
  "depthCompare a b < 0 \<longleftrightarrow>
     depthOf a < depthOf b \<or>
     depthOf a = depthOf b \<and> (rowOf a < rowOf b \<or> rowOf a = rowOf b \<and> \<not> isPreview a \<and> isPreview b)"
proof (cases "depthOf a = depthOf b")
  case True
  then show ?thesis by (auto simp: depthCompare_eq)
next
  case False
  then show ?thesis using depthCompare_neq [of a b] by auto
qed

lemma depthCompare_trans:
  "depthCompare a b < 0 \<Longrightarrow> depthCompare b c < 0 \<Longrightarrow> depthCompare a c < 0"
  unfolding depthCompare_less_iff by auto

lemma universityScene_income: "calculateIncome 4 universityScene = 14"
  by code_simp

lemma fundedScene_reached: "((handleTick 4) ^^ 5) universityScene = fundedScene"
  by (simp add: funpow_handleTick universityScene_income fundedScene_def)
     (simp add: universityScene_def)

lemma detachedScene_reached:
  "placeTile 4 (fundedScene\<lparr>previewFlipped := True\<rparr>) 0 1 ''grass'' = (Done, detachedScene)"
  by (simp add: detachedScene_def fundedScene_def universityScene_def universityGrid_def
      eval_defs initialCosts_simps)

lemma overlapScene_reached:
  "placeTile 4 detachedScene 0 1 ''house'' = (Done, overlapScene)"
  by (simp add: overlapScene_def detachedScene_def fundedScene_def universityScene_def
      universityGrid_def eval_defs initialCosts_simps)

lemma overlapScene_entities:
  "entityOf (grid overlapScene) 0 0 = universityEntity"
  "entityOf (grid overlapScene) 0 1 = houseEntity"
  by (simp_all add: entityOf_def overlapScene_def universityGrid_def universityEntity_def
      houseEntity_def tileAt_def setTileAt_def grassTile_def eval_nat_numeral)

lemma depthCompare_le_iff:
  "depthCompare a b \<le> 0 \<longleftrightarrow>
     depthOf a < depthOf b \<or>
     depthOf a = depthOf b \<and> (rowOf a < rowOf b \<or> rowOf a = rowOf b \<and> \<not> isPreview a)"
proof (cases "depthOf a = depthOf b")
  case True
  then show ?thesis by (auto simp: depthCompare_eq)
next
  case False
  then show ?thesis using depthCompare_neq [of a b] by auto
qed

lemma not_before_insertBy:
  "sorted_wrt (\<lambda>a b. \<not> depthCompare b a < 0) ys \<Longrightarrow>
   sorted_wrt (\<lambda>a b. \<not> depthCompare b a < 0) (insertBy depthCompare x ys)"
proof (induction ys)
  case Nil
  show ?case by simp
next
  case (Cons y ys)
  show ?case
  proof (cases "depthCompare x y \<le> 0")
    case True
    have "\<not> depthCompare z x < 0" if "z = y \<or> (z \<in> set ys \<and> \<not> depthCompare z y < 0)" for z
      using that True unfolding depthCompare_less_iff depthCompare_le_iff by auto
    with Cons.prems True show ?thesis
      by auto
  next
    case False
    then have "\<not> depthCompare x y < 0"
      by simp
    with Cons False show ?thesis
      by (auto simp: set_insertBy)
  qed
qed

lemma not_before_updateDepths:
  "sorted_wrt (\<lambda>a b. \<not> depthCompare b a < 0) (updateDepths xs)"
  by (induction xs) (simp_all add: updateDepths_def sortBy_def not_before_insertBy)

lemma updateDepths_position:
  assumes "i < length (updateDepths xs)" "j < length (updateDepths xs)"
    and "depthCompare (updateDepths xs ! i) (updateDepths xs ! j) < 0"
  shows "i < j"
proof (rule ccontr)
  assume "\<not> i < j"
  then consider "i = j" | "j < i" by arith
  then show False
  proof cases
    case 1
    with assms(3) show False
      by (simp add: depthCompare_less_iff)
  next
    case 2
    then have "\<not> depthCompare (updateDepths xs ! i) (updateDepths xs ! j) < 0"
      using not_before_updateDepths [of xs] assms(1) by (simp add: sorted_wrt_iff_nth_less)
    with assms(3) show False by simp
  qed
qed

text \<open>
  Claim C7, amended. In the sorted list an object with a smaller key stands before every
  object with a larger key, whatever the input order; of two objects with equal keys the
  one on the smaller row stands first, and with equal rows a tile stands before the
  preview; the list holds the same objects. The comparator decides in that order: key,
  then row, then the preview last. It is transitive, and antisymmetric for two objects that
  are not both previews. Two objects with equal key and row, neither a preview, compare as
  equal: the order is total up to such ties only.
\<close>

theorem depth_order:
  "(\<forall>i j. i < length (updateDepths xs) \<and> j < length (updateDepths xs) \<and>
          depthOf (updateDepths xs ! i) < depthOf (updateDepths xs ! j) \<longrightarrow> i < j) \<and>
   (\<forall>i j. i < length (updateDepths xs) \<and> j < length (updateDepths xs) \<and>
          depthOf (updateDepths xs ! i) = depthOf (updateDepths xs ! j) \<and>
          rowOf (updateDepths xs ! i) < rowOf (updateDepths xs ! j) \<longrightarrow> i < j) \<and>
   (\<forall>i j. i < length (updateDepths xs) \<and> j < length (updateDepths xs) \<and>
          depthOf (updateDepths xs ! i) = depthOf (updateDepths xs ! j) \<and>
          rowOf (updateDepths xs ! i) = rowOf (updateDepths xs ! j) \<and>
          \<not> isPreview (updateDepths xs ! i) \<and> isPreview (updateDepths xs ! j) \<longrightarrow> i < j) \<and>
   mset (updateDepths xs) = mset xs \<and>
   (depthOf a = depthOf b \<and> rowOf a < rowOf b \<longrightarrow> depthCompare a b < 0) \<and>
   (depthOf a = depthOf b \<and> rowOf a = rowOf b \<and> \<not> isPreview a \<and> isPreview b \<longrightarrow>
      depthCompare a b < 0 \<and> 0 < depthCompare b a) \<and>
   (depthOf a = depthOf b \<and> rowOf a = rowOf b \<and> \<not> isPreview a \<and> \<not> isPreview b \<longrightarrow>
      depthCompare a b = 0) \<and>
   (\<not> (isPreview a \<and> isPreview b) \<longrightarrow> depthCompare b a = - depthCompare a b) \<and>
   (depthCompare a b < 0 \<and> depthCompare b c < 0 \<longrightarrow> depthCompare a c < 0)"
proof (intro conjI allI impI)
  fix i j
  assume "i < length (updateDepths xs) \<and> j < length (updateDepths xs) \<and>
          depthOf (updateDepths xs ! i) < depthOf (updateDepths xs ! j)"
  then show "i < j"
    using updateDepths_position [of i xs j] by (simp add: depthCompare_less_iff)
next
  fix i j
  assume "i < length (updateDepths xs) \<and> j < length (updateDepths xs) \<and>
          depthOf (updateDepths xs ! i) = depthOf (updateDepths xs ! j) \<and>
          rowOf (updateDepths xs ! i) < rowOf (updateDepths xs ! j)"
  then show "i < j"
    using updateDepths_position [of i xs j] by (simp add: depthCompare_less_iff)
next
  fix i j
  assume "i < length (updateDepths xs) \<and> j < length (updateDepths xs) \<and>
          depthOf (updateDepths xs ! i) = depthOf (updateDepths xs ! j) \<and>
          rowOf (updateDepths xs ! i) = rowOf (updateDepths xs ! j) \<and>
          \<not> isPreview (updateDepths xs ! i) \<and> isPreview (updateDepths xs ! j)"
  then show "i < j"
    using updateDepths_position [of i xs j] by (simp add: depthCompare_less_iff)
next
  show "mset (updateDepths xs) = mset xs"
    by (simp add: updateDepths_def mset_sortBy)
next
  assume "depthOf a = depthOf b \<and> rowOf a < rowOf b"
  then show "depthCompare a b < 0"
    by (simp add: depthCompare_eq)
next
  assume h: "depthOf a = depthOf b \<and> rowOf a = rowOf b \<and> \<not> isPreview a \<and> isPreview b"
  then show "depthCompare a b < 0"
    by (simp add: depthCompare_eq)
  from h have "depthOf b = depthOf a"
    by simp
  with h show "0 < depthCompare b a"
    by (simp add: depthCompare_eq)
next
  assume "depthOf a = depthOf b \<and> rowOf a = rowOf b \<and> \<not> isPreview a \<and> \<not> isPreview b"
  then show "depthCompare a b = 0"
    by (simp add: depthCompare_eq)
next
  assume "\<not> (isPreview a \<and> isPreview b)"
  then show "depthCompare b a = - depthCompare a b"
    by (rule depthCompare_antisym)
next
  assume "depthCompare a b < 0 \<and> depthCompare b c < 0"
  then show "depthCompare a c < 0"
    using depthCompare_trans [of a b c] by simp
qed

theorem depth_order_witness:
  "updateDepths [previewEntity, parkEntity, houseEntity, grassEntity, universityEntity] =
     [grassEntity, houseEntity, universityEntity, previewEntity, parkEntity] \<and>
   depthOf grassEntity < depthOf houseEntity \<and>
   depthOf previewEntity = depthOf parkEntity \<and> rowOf previewEntity < rowOf parkEntity \<and>
   depthOf houseEntity = depthOf previewEntity \<and> rowOf houseEntity = rowOf previewEntity \<and>
   \<not> isPreview houseEntity \<and> isPreview previewEntity \<and>
   depthCompare houseEntity previewEntity < 0 \<and> 0 < depthCompare previewEntity houseEntity \<and>
   depthCompare houseEntity parkEntity < 0 \<and> depthCompare parkEntity houseEntity = 1 \<and>
   depthCompare grassEntity houseEntity < 0 \<and> depthCompare grassEntity previewEntity < 0 \<and>
   depthCompare houseEntity universityEntity = 0"
proof -
  let ?xs = "[previewEntity, parkEntity, houseEntity, grassEntity, universityEntity]"
  let ?out = "[grassEntity, houseEntity, universityEntity, previewEntity, parkEntity]"
  have k: "depthOf houseEntity = 11 / 10" "depthOf previewEntity = 11 / 10"
    "depthOf parkEntity = 11 / 10" "depthOf grassEntity = 1" "depthOf universityEntity = 11 / 10"
    by code_simp+
  have r: "rowOf houseEntity = 0" "rowOf previewEntity = 0" "rowOf parkEntity = 1"
    "rowOf universityEntity = 0" "rowOf grassEntity = 1"
    by (simp_all add: rowOf_def houseEntity_def previewEntity_def parkEntity_def
        universityEntity_def grassEntity_def)
  have p: "\<not> isPreview houseEntity" "isPreview previewEntity" "\<not> isPreview parkEntity"
    "\<not> isPreview universityEntity" "\<not> isPreview grassEntity"
    by (simp_all add: houseEntity_def previewEntity_def parkEntity_def universityEntity_def
        grassEntity_def)
  have 1: "depthCompare houseEntity previewEntity < 0" "0 < depthCompare previewEntity houseEntity"
    using depth_order [of ?xs houseEntity previewEntity grassEntity] k r p by simp_all
  have 2: "depthCompare houseEntity parkEntity < 0"
    using depth_order [of ?xs houseEntity parkEntity grassEntity] k r by simp
  have 3: "depthCompare parkEntity houseEntity = 1"
    by code_simp
  have 4: "depthCompare grassEntity houseEntity < 0"
    by code_simp
  have 5: "depthCompare grassEntity previewEntity < 0"
    using depth_order [of ?xs grassEntity houseEntity previewEntity] 4 1 by simp
  have 6: "depthCompare houseEntity universityEntity = 0"
    using depth_order [of ?xs houseEntity universityEntity grassEntity] k r p by simp
  have out: "updateDepths ?xs = ?out"
    by code_simp
  show ?thesis
    using out 1 2 3 4 5 6 k r p by simp
qed

text \<open>
  Claim C7 as stated fails: the house on \<open>(0, 1)\<close> and the university on \<open>(0, 0)\<close> of
  \<open>overlapScene\<close> differ in column and size and compare as equal, so that their order in
  the sorted list is their order in the input.
\<close>

theorem depth_order_tie:
  "entityOf (grid overlapScene) 0 1 = houseEntity \<and>
   entityOf (grid overlapScene) 0 0 = universityEntity \<and>
   houseEntity \<noteq> universityEntity \<and>
   depthCompare houseEntity universityEntity = 0 \<and>
   depthCompare universityEntity houseEntity = 0 \<and>
   updateDepths [houseEntity, universityEntity] = [houseEntity, universityEntity] \<and>
   updateDepths [universityEntity, houseEntity] = [universityEntity, houseEntity]"
proof -
  have "houseEntity \<noteq> universityEntity"
    by (simp add: houseEntity_def universityEntity_def)
  moreover have "depthCompare houseEntity universityEntity = 0"
    "depthCompare universityEntity houseEntity = 0"
    "updateDepths [houseEntity, universityEntity] = [houseEntity, universityEntity]"
    "updateDepths [universityEntity, houseEntity] = [universityEntity, houseEntity]"
    by code_simp+
  ultimately show ?thesis
    by (simp add: overlapScene_entities)
qed

subsection \<open>Persistence\<close>

text \<open>
  Claim C8. For every scene of a game, loading what \<^verbatim>\<open>saveGame\<close> wrote into a freshly
  constructed scene gives back the scene: the same grid (kind, flip, \<^verbatim>\<open>masterTile\<close> and
  \<^verbatim>\<open>isMaster\<close> of every cell) and the same money, population, happiness and costs. The
  preview, which is not saved, is unflipped as in every fresh scene.
\<close>

theorem save_load_roundtrip:
  assumes "reachable gridSize s"
  shows "loadGame gridSize (initialScene gridSize) (Some (saveGame gridSize s)) =
         Loaded (s\<lparr>previewFlipped := False\<rparr>)"
  using reachable_invariant [OF assms]
    loadGame_saveGame [of gridSize s "initialScene gridSize"]
  by (simp add: initialScene_def)

theorem save_load_roundtrip_witness:
  "reachable 4 universityScene \<and>
   loadGame 4 (initialScene 4) (Some (saveGame 4 universityScene)) = Loaded universityScene"
  using save_load_roundtrip [OF reachable_universityScene] reachable_universityScene
  by (simp add: universityScene_def)

end
